theory Spec2Isabelle
  imports Complex_Main
begin

section \<open>Calendar colour-hours: the window, the clipper, the resolver, the aggregator\<close>

text \<open>
  The repository holds two scripts with the same core: \<^verbatim>\<open>simple_color_hours.py\<close>
  (hours per custom label) and \<^verbatim>\<open>weekly_calendar_color_hours.py\<close> (hours per raw
  colour id). Each function below embeds one source function and keeps its name; where
  both scripts define a function of the same name, the model of the first script is
  prefixed \<open>simple_\<close> and the model of the second \<open>weekly_\<close>.

  Exceptions are values: a function that can raise returns \<open>py_error + 'a\<close>.
\<close>

datatype py_error = KeyError string | ValueError | OverflowError

subsection \<open>Floating point\<close>

text \<open>
  A Python \<^verbatim>\<open>float\<close> is a binary64 number. The model keeps its exact value as a
  rational; \<open>float64 x\<close> is the binary64 number nearest to \<open>x\<close>, ties to the even
  significand (IEEE 754 round-to-nearest, with the subnormal range), which is the result
  of a float operation whose exact result is \<open>x\<close>. Overflow to infinity (magnitudes from
  \<open>2^1024\<close>) is not modelled.
\<close>

text \<open>The number of binary digits of a positive integer.\<close>

function bitlen :: "int \<Rightarrow> nat" where
  "bitlen i = (if i \<le> 0 then 0 else Suc (bitlen (i div 2)))"
  by pat_completeness auto
termination
  by (relation "measure nat") auto

declare bitlen.simps [simp del]

text \<open>For \<open>a > 0\<close>, the exponent \<open>k\<close> with \<open>2^k \<le> a < 2^(k+1)\<close>.\<close>

definition binade :: "rat \<Rightarrow> int" where
  "binade a =
     (if 1 \<le> a then int (bitlen \<lfloor>a\<rfloor>) - 1
      else (let L = bitlen \<lfloor>1 / a\<rfloor>
            in if a * 2 ^ (L - 1) = 1 then 1 - int L else - int L))"

definition scale2 :: "rat \<Rightarrow> int \<Rightarrow> rat" where
  "scale2 x e = (if 0 \<le> e then x * 2 ^ nat e else x / 2 ^ nat (- e))"

definition round_half_even :: "rat \<Rightarrow> int" where
  "round_half_even q =
     (let f = \<lfloor>q\<rfloor>; r = q - of_int f
      in if r < 1 / 2 then f
         else if 1 / 2 < r then f + 1
         else if even f then f else f + 1)"

definition float64 :: "rat \<Rightarrow> rat" where
  "float64 x =
     (if x = 0 then 0
      else (let a = \<bar>x\<bar>;
                e = max (binade a - 52) (- 1074);
                m = round_half_even (scale2 a (- e))
            in sgn x * scale2 (of_int m) e))"

subsection \<open>Interval clipper\<close>

text \<open>
  Python's two-argument \<^verbatim>\<open>max(a, b)\<close> keeps \<open>a\<close> unless \<open>b\<close> is strictly greater, and
  \<^verbatim>\<open>min(a, b)\<close> keeps \<open>a\<close> unless \<open>b\<close> is strictly smaller. The functions are duck-typed
  in the source; the model is polymorphic over a linear order of timestamps.
\<close>

definition py_max :: "'a::linorder \<Rightarrow> 'a \<Rightarrow> 'a" where
  "py_max a b = (if a < b then b else a)"

definition py_min :: "'a::linorder \<Rightarrow> 'a \<Rightarrow> 'a" where
  "py_min a b = (if b < a then b else a)"

text \<open>\<^verbatim>\<open>clip(a, b, lo, hi)\<close> of \<^verbatim>\<open>simple_color_hours.py\<close>.\<close>

definition clip :: "'a::linorder \<Rightarrow> 'a \<Rightarrow> 'a \<Rightarrow> 'a \<Rightarrow> ('a \<times> 'a) option" where
  "clip a b lo hi =
     (let s = py_max a lo; e = py_min b hi
      in if s \<ge> e then None else Some (s, e))"

text \<open>\<^verbatim>\<open>clamp_interval(start, end, clamp_start, clamp_end)\<close> of
  \<^verbatim>\<open>weekly_calendar_color_hours.py\<close>.\<close>

definition clamp_interval :: "'a::linorder \<Rightarrow> 'a \<Rightarrow> 'a \<Rightarrow> 'a \<Rightarrow> ('a \<times> 'a) option" where
  "clamp_interval start end' clamp_start clamp_end =
     (let s = py_max start clamp_start;
          e = py_min end' clamp_end
      in if s \<ge> e then None else Some (s, e))"

subsection \<open>Local date-times\<close>

text \<open>
  An aware \<^verbatim>\<open>datetime\<close> of one timezone: the proleptic Gregorian ordinal of its date
  (\<^verbatim>\<open>date.toordinal()\<close>, 1 for 0001-01-01 and 3652059 for 9999-12-31), its wall-clock
  fields and its \<^verbatim>\<open>tzinfo\<close>. Python's \<^verbatim>\<open>replace\<close>, \<^verbatim>\<open>weekday\<close> and the addition of a
  \<^verbatim>\<open>timedelta\<close> work on the wall-clock fields and keep the \<^verbatim>\<open>tzinfo\<close>; two aware
  date-times of the same \<^verbatim>\<open>tzinfo\<close> are compared by their wall-clock fields.
\<close>

record datetime =
  ordinal :: int
  hour :: nat
  minute :: nat
  second :: nat
  microsecond :: nat
  tzinfo :: string

definition MAXORDINAL :: int where
  "MAXORDINAL = 3652059"

text \<open>\<^verbatim>\<open>weekday()\<close>: Monday is 0, Sunday is 6; ordinal 1 is a Monday.\<close>

definition weekday :: "datetime \<Rightarrow> int" where
  "weekday d = (ordinal d + 6) mod 7"

text \<open>\<^verbatim>\<open>now.replace(hour=0, minute=0, second=0, microsecond=0)\<close>.\<close>

definition replace_midnight :: "datetime \<Rightarrow> datetime" where
  "replace_midnight d = d\<lparr>hour := 0, minute := 0, second := 0, microsecond := 0\<rparr>"

text \<open>
  \<^verbatim>\<open>d + timedelta(days=k)\<close> and \<^verbatim>\<open>d - timedelta(days=k)\<close>: the date moves by whole
  calendar days, the time of day stays, and a date outside years 1 to 9999 raises
  \<^verbatim>\<open>OverflowError\<close>.
\<close>

definition add_days :: "datetime \<Rightarrow> int \<Rightarrow> py_error + datetime" where
  "add_days d k =
     (let n = ordinal d + k
      in if 1 \<le> n \<and> n \<le> MAXORDINAL then Inr (d\<lparr>ordinal := n\<rparr>) else Inl OverflowError)"

definition sub_days :: "datetime \<Rightarrow> int \<Rightarrow> py_error + datetime" where
  "sub_days d k = add_days d (- k)"

text \<open>The wall-clock position of a date-time in microseconds, which \<^verbatim>\<open><\<close> compares.\<close>

definition naive_us :: "datetime \<Rightarrow> int" where
  "naive_us d =
     (((ordinal d * 24 + int (hour d)) * 60 + int (minute d)) * 60 + int (second d)) * 1000000
       + int (microsecond d)"

definition dt_less :: "datetime \<Rightarrow> datetime \<Rightarrow> bool" where
  "dt_less a b = (naive_us a < naive_us b)"

subsection \<open>Week window resolver\<close>

text \<open>
  \<^verbatim>\<open>get_last_week_window(tzname)\<close> of \<^verbatim>\<open>simple_color_hours.py\<close>. The clock reading
  \<^verbatim>\<open>datetime.now(gettz(tzname))\<close> is the argument \<open>now\<close>.
\<close>

definition get_last_week_window :: "datetime \<Rightarrow> py_error + (datetime \<times> datetime)" where
  "get_last_week_window now =
     (let today = replace_midnight now;
          days_since_sunday = weekday today;
          days_since_sunday =
            (if days_since_sunday = 6 then 0 else (days_since_sunday + 1) mod 7)
      in case (if weekday today = 6 then sub_days today 7
               else sub_days today days_since_sunday) of
           Inl err \<Rightarrow> Inl err
         | Inr last_sunday \<Rightarrow>
             (let start = last_sunday
              in case add_days start 7 of
                   Inl err \<Rightarrow> Inl err
                 | Inr end' \<Rightarrow> Inr (start, end')))"

text \<open>\<^verbatim>\<open>last_sun_to_sat(tzname)\<close> of \<^verbatim>\<open>weekly_calendar_color_hours.py\<close>.\<close>

definition last_sun_to_sat :: "datetime \<Rightarrow> py_error + (datetime \<times> datetime)" where
  "last_sun_to_sat now =
     (let today = replace_midnight now;
          days_since_last_sun = (weekday today + 1) mod 7
      in case sub_days today days_since_last_sun of
           Inl err \<Rightarrow> Inl err
         | Inr end' \<Rightarrow>
             (case sub_days end' 7 of
                Inl err \<Rightarrow> Inl err
              | Inr start \<Rightarrow> Inr (start, end')))"

text \<open>
  The window as the specification words it: with \<open>dow\<close> the day of week of today's local
  midnight and \<open>daysSinceSunday = (dow + 1) mod 7\<close>, the start is today minus 7 days when
  \<open>daysSinceSunday = 0\<close> and today minus \<open>daysSinceSunday\<close> days otherwise; the end is the
  start plus 7 days.
\<close>

definition shift_days :: "datetime \<Rightarrow> int \<Rightarrow> datetime" where
  "shift_days d k = d\<lparr>ordinal := ordinal d + k\<rparr>"

definition spec_week_window :: "datetime \<Rightarrow> datetime \<times> datetime" where
  "spec_week_window now =
     (let today = replace_midnight now;
          dow = weekday today;
          daysSinceSunday = (dow + 1) mod 7;
          start = (if daysSinceSunday = 0 then shift_days today (- 7)
                   else shift_days today (- daysSinceSunday))
      in (start, shift_days start 7))"

text \<open>
  The invariant of a time window computed from \<open>now\<close>: the start is before the end, the
  start is a Sunday at 00:00:00.000000 of the timezone of \<open>now\<close>, and the end is the same
  wall-clock time seven calendar days later.
\<close>

definition time_window_invariant :: "datetime \<Rightarrow> datetime \<Rightarrow> datetime \<Rightarrow> bool" where
  "time_window_invariant now start end' =
     (dt_less start end' \<and> weekday start = 6
      \<and> hour start = 0 \<and> minute start = 0 \<and> second start = 0 \<and> microsecond start = 0
      \<and> tzinfo start = tzinfo now
      \<and> end' = shift_days start 7)"

text \<open>The clock readings from which the date arithmetic of both resolvers stays inside
  years 1 to 9999.\<close>

definition clock_in_range :: "datetime \<Rightarrow> bool" where
  "clock_in_range now = (14 \<le> ordinal now \<and> ordinal now + 6 \<le> MAXORDINAL)"

text \<open>Monday 2024-01-08, 09:30 in America/Chicago.\<close>

definition monday_morning :: datetime where
  "monday_morning =
     \<lparr>ordinal = 738893, hour = 9, minute = 30, second = 0, microsecond = 0,
      tzinfo = ''America/Chicago''\<rparr>"

text \<open>Sunday 2024-01-14, 23:59:59.999999 in America/Chicago.\<close>

definition sunday_night :: datetime where
  "sunday_night =
     \<lparr>ordinal = 738899, hour = 23, minute = 59, second = 59, microsecond = 999999,
      tzinfo = ''America/Chicago''\<rparr>"

subsection \<open>Dictionaries, strings and truthiness\<close>

text \<open>
  A Python \<^verbatim>\<open>dict\<close> is an association list in insertion order with distinct keys. A
  value that may be absent or \<^verbatim>\<open>None\<close> is an \<open>option\<close>; \<^verbatim>\<open>None\<close> and the empty string are
  the falsy strings.
\<close>

definition truthy :: "string option \<Rightarrow> bool" where
  "truthy x = (case x of None \<Rightarrow> False | Some s \<Rightarrow> s \<noteq> [])"

definition dict_contains :: "('k \<times> 'v) list \<Rightarrow> 'k \<Rightarrow> bool" where
  "dict_contains d k = (k \<in> set (map fst d))"

text \<open>\<^verbatim>\<open>d[k]\<close>: a missing key raises \<^verbatim>\<open>KeyError\<close>.\<close>

definition getitem :: "(string \<times> 'v) list \<Rightarrow> string \<Rightarrow> py_error + 'v" where
  "getitem d k = (case map_of d k of None \<Rightarrow> Inl (KeyError k) | Some v \<Rightarrow> Inr v)"

text \<open>\<^verbatim>\<open>s.replace("Z", "+00:00")\<close>.\<close>

definition replace_Z :: "string \<Rightarrow> string" where
  "replace_Z s = concat (map (\<lambda>c. if c = CHR ''Z'' then ''+00:00'' else [c]) s)"

subsection \<open>Event times\<close>

text \<open>
  An event of the Calendar API: its \<^verbatim>\<open>start\<close> and \<^verbatim>\<open>end\<close> objects (absent, or a
  dictionary of strings) and its explicit \<^verbatim>\<open>colorId\<close>.
\<close>

record event =
  evt_start :: "(string \<times> string) list option"
  evt_end :: "(string \<times> string) list option"
  evt_colorId :: "string option"

text \<open>
  The date-time library in the timezone \<^verbatim>\<open>gettz(tzname)\<close>, as parameters. A timestamp is
  the position of an aware date-time on the time line that \<^verbatim>\<open><\<close> and \<^verbatim>\<open>-\<close> use, in
  microseconds.
  \<^item> \<open>fromisoformat_tz x\<close> is \<^verbatim>\<open>datetime.fromisoformat(x).astimezone(tz)\<close>, \<open>None\<close> when it
    raises \<^verbatim>\<open>ValueError\<close>;
  \<^item> \<open>combine_date_tz x\<close> is
    \<^verbatim>\<open>datetime.combine(date.fromisoformat(x), time(0, 0), tz)\<close>, \<open>None\<close> when it raises
    \<^verbatim>\<open>ValueError\<close>;
  \<^item> \<open>now_tz\<close> is the reading \<^verbatim>\<open>datetime.now(tz)\<close>.
\<close>

record timelib =
  fromisoformat_tz :: "string \<Rightarrow> int option"
  combine_date_tz :: "string \<Rightarrow> int option"
  now_tz :: int

text \<open>\<^verbatim>\<open>evt.get("start", {})\<close>.\<close>

definition get_or_empty :: "(string \<times> string) list option \<Rightarrow> (string \<times> string) list" where
  "get_or_empty x = (case x of None \<Rightarrow> [] | Some d \<Rightarrow> d)"

text \<open>\<^verbatim>\<open>parse_event_times(evt, tzname)\<close> of \<^verbatim>\<open>simple_color_hours.py\<close>.\<close>

definition simple_parse_event_times :: "timelib \<Rightarrow> event \<Rightarrow> py_error + (int \<times> int \<times> bool)" where
  "simple_parse_event_times L evt =
     (let s = get_or_empty (evt_start evt); e = get_or_empty (evt_end evt)
      in if dict_contains s ''dateTime'' then
           (case getitem s ''dateTime'' of Inl err \<Rightarrow> Inl err | Inr sv \<Rightarrow>
            case fromisoformat_tz L (replace_Z sv) of None \<Rightarrow> Inl ValueError | Some sd \<Rightarrow>
            case getitem e ''dateTime'' of Inl err \<Rightarrow> Inl err | Inr ev \<Rightarrow>
            case fromisoformat_tz L (replace_Z ev) of None \<Rightarrow> Inl ValueError | Some ed \<Rightarrow>
              Inr (sd, ed, False))
         else
           (case getitem s ''date'' of Inl err \<Rightarrow> Inl err | Inr sv \<Rightarrow>
            case combine_date_tz L sv of None \<Rightarrow> Inl ValueError | Some sd \<Rightarrow>
            case getitem e ''date'' of Inl err \<Rightarrow> Inl err | Inr ev \<Rightarrow>
            case combine_date_tz L ev of None \<Rightarrow> Inl ValueError | Some ed \<Rightarrow>
              Inr (sd, ed, True)))"

text \<open>\<^verbatim>\<open>parse_event_times(evt, tzname)\<close> of \<^verbatim>\<open>weekly_calendar_color_hours.py\<close>.\<close>

definition weekly_parse_event_times :: "timelib \<Rightarrow> event \<Rightarrow> py_error + (int \<times> int \<times> bool)" where
  "weekly_parse_event_times L evt =
     (let start = get_or_empty (evt_start evt); end' = get_or_empty (evt_end evt)
      in if dict_contains start ''dateTime'' then
           (case getitem start ''dateTime'' of Inl err \<Rightarrow> Inl err | Inr sv \<Rightarrow>
            case fromisoformat_tz L (replace_Z sv) of None \<Rightarrow> Inl ValueError | Some s \<Rightarrow>
            case getitem end' ''dateTime'' of Inl err \<Rightarrow> Inl err | Inr ev \<Rightarrow>
            case fromisoformat_tz L (replace_Z ev) of None \<Rightarrow> Inl ValueError | Some e \<Rightarrow>
              Inr (s, e, False))
         else if dict_contains start ''date'' then
           (case getitem start ''date'' of Inl err \<Rightarrow> Inl err | Inr sv \<Rightarrow>
            case combine_date_tz L sv of None \<Rightarrow> Inl ValueError | Some s \<Rightarrow>
            case getitem end' ''date'' of Inl err \<Rightarrow> Inl err | Inr ev \<Rightarrow>
            case combine_date_tz L ev of None \<Rightarrow> Inl ValueError | Some e \<Rightarrow>
              Inr (s, e, True))
         else
           (let now = now_tz L in Inr (now, now, False)))"

subsection \<open>Colour resolver\<close>

definition CUSTOM_COLOR_NAMES :: "(string \<times> string) list" where
  "CUSTOM_COLOR_NAMES =
     [(''1'', ''Class''), (''2'', ''Side-Hustle''), (''3'', ''Personal-Development''),
      (''4'', ''Faith''), (''5'', ''Network''), (''6'', ''Test''), (''7'', ''Money''),
      (''8'', ''Sleep''), (''9'', ''Exercise''), (''10'', ''Project''), (''11'', ''Meal'')]"

text \<open>
  The builtin \<^verbatim>\<open>int(s, 16)\<close> on a string of code points below 256: surrounding white
  space is dropped, then an optional sign, an optional \<^verbatim>\<open>0x\<close> prefix (which one underscore
  may follow), then hexadecimal digits with single underscores between them; anything
  else raises \<^verbatim>\<open>ValueError\<close> (\<open>None\<close>). The white space of \<^verbatim>\<open>int\<close> is the ASCII
  white space (tab, line feed, vertical tab, form feed, carriage return, space) and the
  two Unicode spaces below 256, U+0085 and U+00A0; the separators U+001C to U+001F are
  not dropped.
\<close>

definition is_space :: "char \<Rightarrow> bool" where
  "is_space c =
     (c \<in> set [CHR '' '', CHR 0x09, CHR 0x0A, CHR 0x0B, CHR 0x0C, CHR 0x0D,
                CHR 0x85, CHR 0xA0])"

definition hex_digit_value :: "char \<Rightarrow> int option" where
  "hex_digit_value c =
     (let n = (of_char c :: nat)
      in if 48 \<le> n \<and> n \<le> 57 then Some (int n - 48)
         else if 97 \<le> n \<and> n \<le> 102 then Some (int n - 87)
         else if 65 \<le> n \<and> n \<le> 70 then Some (int n - 55)
         else None)"

fun hex_digits :: "string \<Rightarrow> bool \<Rightarrow> int \<Rightarrow> int option" where
  "hex_digits [] prev_underscore acc = (if prev_underscore then None else Some acc)"
| "hex_digits (c # cs) prev_underscore acc =
     (if c = CHR ''_'' then (if prev_underscore then None else hex_digits cs True acc)
      else case hex_digit_value c of
             None \<Rightarrow> None
           | Some v \<Rightarrow> hex_digits cs False (16 * acc + v))"

definition py_int16 :: "string \<Rightarrow> int option" where
  "py_int16 s =
     (let t = rev (dropWhile is_space (rev (dropWhile is_space s)));
          sign = (if take 1 t = ''-'' then - 1 else 1 :: int);
          t = (if take 1 t = ''+'' \<or> take 1 t = ''-'' then drop 1 t else t);
          t = (if take 2 t = ''0x'' \<or> take 2 t = ''0X''
               then (if take 1 (drop 2 t) = ''_'' then drop 3 t else drop 2 t)
               else t)
      in if t = [] \<or> take 1 t = ''_'' then None
         else map_option (\<lambda>v. sign * v) (hex_digits t False 0))"

text \<open>\<^verbatim>\<open>hex_to_rgb(hx)\<close>; \<open>None\<close> when it raises \<^verbatim>\<open>ValueError\<close>.\<close>

definition hex_to_rgb :: "string \<Rightarrow> (int \<times> int \<times> int) option" where
  "hex_to_rgb hx0 =
     (let hx = dropWhile (\<lambda>c. c = CHR ''#'') hx0
      in case py_int16 (take 2 hx) of None \<Rightarrow> None | Some r \<Rightarrow>
         case py_int16 (take 2 (drop 2 hx)) of None \<Rightarrow> None | Some g \<Rightarrow>
         case py_int16 (take 2 (drop 4 hx)) of None \<Rightarrow> None | Some b \<Rightarrow>
           Some (r, g, b))"

text \<open>
  The strings that \<open>hex_to_rgb\<close> rejects, by their shape. A slice of at most two
  characters is accepted by \<^verbatim>\<open>int(_, 16)\<close> when it is one hexadecimal digit, two
  hexadecimal digits, a digit followed by white space, or a digit after white space or
  a sign. A string is rejected when, after its leading \<open>#\<close> characters, one of the slices
  at offsets 0, 2 and 4 is not of these shapes.
\<close>

definition is_hex :: "char \<Rightarrow> bool" where
  "is_hex c = (c \<in> set ''0123456789abcdefABCDEF'')"

definition accepted_slice :: "string \<Rightarrow> bool" where
  "accepted_slice s =
     (case s of
        [a] \<Rightarrow> is_hex a
      | [a, b] \<Rightarrow>
          (is_hex a \<and> (is_hex b \<or> is_space b))
          \<or> ((is_space a \<or> a = CHR ''+'' \<or> a = CHR ''-'') \<and> is_hex b)
      | _ \<Rightarrow> False)"

definition rejected_hex :: "string \<Rightarrow> bool" where
  "rejected_hex hx0 =
     (let hx = dropWhile (\<lambda>c. c = CHR ''#'') hx0
      in \<not> (accepted_slice (take 2 hx) \<and> accepted_slice (take 2 (drop 2 hx))
             \<and> accepted_slice (take 2 (drop 4 hx))))"

text \<open>
  \<^verbatim>\<open>nearest_event_color_id(hex_color, event_hex_map)\<close>. The \<^verbatim>\<open>try\<close> guards the parse of
  \<open>hex_color\<close> only; a palette entry that does not parse raises inside the loop.
\<close>

fun nearest_loop ::
  "int \<times> int \<times> int \<Rightarrow> (string \<times> string option) list \<Rightarrow> string option \<Rightarrow> int
     \<Rightarrow> py_error + string option" where
  "nearest_loop rgb [] best_id best_d = Inr best_id"
| "nearest_loop (r, g, b) ((cid, ehx) # rest) best_id best_d =
     (case ehx of
        None \<Rightarrow> nearest_loop (r, g, b) rest best_id best_d
      | Some h \<Rightarrow>
          if h = [] then nearest_loop (r, g, b) rest best_id best_d
          else case hex_to_rgb h of
                 None \<Rightarrow> Inl ValueError
               | Some (er, eg, eb) \<Rightarrow>
                   (let d = (r - er)\<^sup>2 + (g - eg)\<^sup>2 + (b - eb)\<^sup>2
                    in if d < best_d then nearest_loop (r, g, b) rest (Some cid) d
                       else nearest_loop (r, g, b) rest best_id best_d))"

definition nearest_event_color_id ::
  "string \<Rightarrow> (string \<times> string option) list \<Rightarrow> py_error + string option" where
  "nearest_event_color_id hex_color event_hex_map =
     (case hex_to_rgb hex_color of
        None \<Rightarrow> Inr None
      | Some rgb \<Rightarrow> nearest_loop rgb event_hex_map None (10 ^ 9))"

text \<open>The test \<^verbatim>\<open>cid and cid in CUSTOM_COLOR_NAMES\<close>.\<close>

definition labelled :: "string option \<Rightarrow> bool" where
  "labelled cid =
     (truthy cid \<and> dict_contains CUSTOM_COLOR_NAMES (case cid of None \<Rightarrow> [] | Some c \<Rightarrow> c))"

text \<open>
  The label decision in \<^verbatim>\<open>main\<close> of \<^verbatim>\<open>simple_color_hours.py\<close> (the lines under
  \<^verbatim>\<open># Decide label\<close>), from the event's \<^verbatim>\<open>colorId\<close>, the calendar's default hex and the
  table of event colours.
\<close>

definition decide_label ::
  "string option \<Rightarrow> string option \<Rightarrow> (string \<times> string option) list \<Rightarrow> py_error + string" where
  "decide_label cid cal_default_hex event_colors =
     (if labelled cid
      then getitem CUSTOM_COLOR_NAMES (case cid of None \<Rightarrow> [] | Some c \<Rightarrow> c)
      else if truthy cal_default_hex then
        (case nearest_event_color_id (case cal_default_hex of None \<Rightarrow> [] | Some h \<Rightarrow> h)
                event_colors of
           Inl err \<Rightarrow> Inl err
         | Inr nearest_id \<Rightarrow>
             Inr (case nearest_id of
                    None \<Rightarrow> ''Miscellaneous''
                  | Some n \<Rightarrow> (case map_of CUSTOM_COLOR_NAMES n of
                                 None \<Rightarrow> ''Miscellaneous''
                               | Some label \<Rightarrow> label)))
      else Inr ''Miscellaneous'')"

subsection \<open>Aggregator\<close>

text \<open>
  The running totals are a \<^verbatim>\<open>defaultdict(float)\<close>: keys in insertion order, a new key
  starting from \<open>0.0\<close>; \<^verbatim>\<open>+=\<close> is float addition.
\<close>

type_synonym totals = "(string \<times> rat) list"

fun dd_add :: "totals \<Rightarrow> string \<Rightarrow> rat \<Rightarrow> totals" where
  "dd_add [] k v = [(k, float64 (0 + v))]"
| "dd_add ((k', x) # rest) k v =
     (if k' = k then (k', float64 (x + v)) # rest else (k', x) # dd_add rest k v)"

text \<open>
  \<^verbatim>\<open>(ce - cs).total_seconds()\<close> for a difference of \<open>us\<close> microseconds: the float
  nearest to \<open>us / 10^6\<close>.
\<close>

definition total_seconds :: "int \<Rightarrow> rat" where
  "total_seconds us = float64 (of_int us / 1000000)"

text \<open>
  The body of \<^verbatim>\<open>for evt in cal_events\<close> in \<^verbatim>\<open>simple_color_hours.py\<close>, up to the
  update of the totals: \<open>Inr None\<close> is \<^verbatim>\<open>continue\<close>, \<open>Inr (Some (label, dur))\<close> is the pair
  that \<^verbatim>\<open>seconds_by_label[label] += dur\<close> then adds.
\<close>

definition simple_event_body ::
  "timelib \<Rightarrow> bool \<Rightarrow> int \<Rightarrow> int \<Rightarrow> string option \<Rightarrow> (string \<times> string option) list
     \<Rightarrow> event \<Rightarrow> py_error + (string \<times> rat) option" where
  "simple_event_body L count_all_day start end' cal_default_hex event_colors evt =
     (case simple_parse_event_times L evt of
        Inl err \<Rightarrow> Inl err
      | Inr (s, e, is_all_day) \<Rightarrow>
          (case clip s e start end' of
             None \<Rightarrow> Inr None
           | Some (cs, ce) \<Rightarrow>
               if is_all_day \<and> \<not> count_all_day then Inr None
               else (let dur = total_seconds (ce - cs)
                     in case decide_label (evt_colorId evt) cal_default_hex event_colors of
                          Inl err \<Rightarrow> Inl err
                        | Inr label \<Rightarrow> Inr (Some (label, dur)))))"

text \<open>
  The body of \<^verbatim>\<open>for evt in cal_events\<close> in \<^verbatim>\<open>weekly_calendar_color_hours.py\<close>; the key
  is \<^verbatim>\<open>evt.get("colorId") or cal_default_color_id or "default"\<close>.
\<close>

definition first_truthy :: "string option \<Rightarrow> string option \<Rightarrow> string \<Rightarrow> string" where
  "first_truthy a b c =
     (if truthy a then (case a of None \<Rightarrow> c | Some x \<Rightarrow> x)
      else if truthy b then (case b of None \<Rightarrow> c | Some y \<Rightarrow> y)
      else c)"

definition weekly_event_body ::
  "timelib \<Rightarrow> bool \<Rightarrow> int \<Rightarrow> int \<Rightarrow> string option \<Rightarrow> event
     \<Rightarrow> py_error + (string \<times> rat) option" where
  "weekly_event_body L count_all_day week_start week_end cal_default_color_id evt =
     (case weekly_parse_event_times L evt of
        Inl err \<Rightarrow> Inl err
      | Inr (s, e, is_all_day) \<Rightarrow>
          (case clamp_interval s e week_start week_end of
             None \<Rightarrow> Inr None
           | Some (cs, ce) \<Rightarrow>
               if is_all_day \<and> \<not> count_all_day then Inr None
               else (let duration_sec = total_seconds (ce - cs);
                         cid = first_truthy (evt_colorId evt) cal_default_color_id ''default''
                     in Inr (Some (cid, duration_sec)))))"

text \<open>The loop over the events of one calendar; an exception ends it.\<close>

fun for_events ::
  "(event \<Rightarrow> py_error + (string \<times> rat) option) \<Rightarrow> event list \<Rightarrow> totals
     \<Rightarrow> py_error + totals" where
  "for_events body [] acc = Inr acc"
| "for_events body (evt # rest) acc =
     (case body evt of
        Inl err \<Rightarrow> Inl err
      | Inr None \<Rightarrow> for_events body rest acc
      | Inr (Some (key, dur)) \<Rightarrow> for_events body rest (dd_add acc key dur))"

text \<open>
  A calendar of the calendar list: its default \<^verbatim>\<open>colorId\<close> and the events that
  \<^verbatim>\<open>fetch_events_for_calendar\<close> returned for it.
\<close>

record calendar =
  cal_colorId :: "string option"
  cal_events :: "event list"


text \<open>\<^verbatim>\<open>for cal in calendars\<close> of \<^verbatim>\<open>weekly_calendar_color_hours.py\<close>.\<close>

fun weekly_main_loop ::
  "timelib \<Rightarrow> bool \<Rightarrow> int \<Rightarrow> int \<Rightarrow> calendar list \<Rightarrow> totals \<Rightarrow> py_error + totals" where
  "weekly_main_loop L count_all_day week_start week_end [] acc = Inr acc"
| "weekly_main_loop L count_all_day week_start week_end (cal # rest) acc =
     (let cal_default_color_id = cal_colorId cal
      in case for_events
                (weekly_event_body L count_all_day week_start week_end cal_default_color_id)
                (cal_events cal) acc of
           Inl err \<Rightarrow> Inl err
         | Inr acc' \<Rightarrow> weekly_main_loop L count_all_day week_start week_end rest acc')"







subsection \<open>Report formatter\<close>

text \<open>
  The number formatting of Python, as parameters: \<open>round2 x\<close> is \<^verbatim>\<open>round(x, 2)\<close>,
  \<open>fsum xs\<close> is the builtin \<^verbatim>\<open>sum\<close> of a list of floats,
  \<open>str_float x\<close> is the text the CSV writer gives a float, \<open>pct_cell\<close> is
  \<^verbatim>\<open>f"{percentage:.1f}%"\<close>, and the \<open>_row\<close> and \<open>_total\<close> fields are the f-strings of
  the console lines of each script (name or colour, hours, percentage).
\<close>

record pyfmt =
  round2 :: "rat \<Rightarrow> rat"
  fsum :: "rat list \<Rightarrow> rat"
  str_float :: "rat \<Rightarrow> string"
  pct_cell :: "rat \<Rightarrow> string"
  simple_row :: "string \<Rightarrow> rat \<Rightarrow> rat \<Rightarrow> string"
  simple_total :: "rat \<Rightarrow> string"
  weekly_row :: "string \<Rightarrow> rat \<Rightarrow> rat \<Rightarrow> string"
  weekly_total :: "rat \<Rightarrow> string"

text \<open>What a report produces: the printed lines and the rows of the CSV file, if one is
  written.\<close>

record report =
  console :: "string list"
  csv_file :: "string list list option"

text \<open>\<^verbatim>\<open>rows.sort(key=..., reverse=True)\<close>: a stable sort, descending by the key.\<close>

definition sort_reverse :: "('a \<Rightarrow> rat) \<Rightarrow> 'a list \<Rightarrow> 'a list" where
  "sort_reverse key rows = rev (sort_key key (rev rows))"

text \<open>\<^verbatim>\<open>(hrs / total_hours * 100) if total_hours > 0 else 0\<close>.\<close>

definition percentage :: "rat \<Rightarrow> rat \<Rightarrow> rat" where
  "percentage hrs total_hours =
     (if total_hours > 0 then float64 (float64 (hrs / total_hours) * 100) else 0)"

text \<open>
  The end of \<^verbatim>\<open>main\<close> of \<^verbatim>\<open>simple_color_hours.py\<close>, from
  \<^verbatim>\<open>if not seconds_by_label\<close> on; \<open>csv\<close> is \<^verbatim>\<open>args.csv\<close>.
\<close>

definition simple_report :: "pyfmt \<Rightarrow> string option \<Rightarrow> string \<Rightarrow> totals \<Rightarrow> report" where
  "simple_report F csv date_range seconds_by_label =
     (if seconds_by_label = [] then
        \<lparr>console = [''No events found in this time window.''],
         csv_file = (if truthy csv then Some [[''label'', ''hours'']] else None)\<rparr>
      else
        (let rows = map (\<lambda>(label, secs). (label, round2 F (float64 (secs / 3600))))
                        seconds_by_label;
             rows = sort_reverse snd rows;
             total_hours = fsum F (map snd rows)
         in \<lparr>console =
                [CHR 0x0A # ''=== Hours by Label ('' @ date_range @ '') ===''] @
                map (\<lambda>(name, hrs). simple_row F name hrs (percentage hrs total_hours)) rows @
                [replicate 50 (CHR ''=''), simple_total F total_hours,
                 replicate 50 (CHR ''='')] @
                (if truthy csv
                 then [CHR 0x0A # ''[INFO] CSV report saved to: ''
                         @ (case csv of None \<Rightarrow> [] | Some path \<Rightarrow> path)]
                 else []),
              csv_file =
                (if truthy csv
                 then Some ([''label'', ''hours'', ''percentage''] #
                        map (\<lambda>(name, hrs).
                               [name, str_float F hrs, pct_cell F (percentage hrs total_hours)])
                          rows)
                 else None)\<rparr>))"

text \<open>\<^verbatim>\<open>str\<close> of a value that may be \<^verbatim>\<open>None\<close>, as an f-string prints it.\<close>

definition str_opt :: "string option \<Rightarrow> string" where
  "str_opt x = (case x of None \<Rightarrow> ''None'' | Some s \<Rightarrow> s)"

text \<open>\<^verbatim>\<open>color_label(cid)\<close> of \<^verbatim>\<open>weekly_calendar_color_hours.py\<close>.\<close>

definition color_label ::
  "(string \<times> string option) list \<Rightarrow> (string \<times> string option) list \<Rightarrow> string \<Rightarrow> string" where
  "color_label event_colors calendar_colors cid =
     (if dict_contains event_colors cid then
        cid @ '' ('' @ str_opt (case map_of event_colors cid of None \<Rightarrow> None | Some v \<Rightarrow> v)
            @ '')''
      else if dict_contains calendar_colors cid then
        cid @ '' (default ''
            @ str_opt (case map_of calendar_colors cid of None \<Rightarrow> None | Some v \<Rightarrow> v)
            @ '')''
      else cid @ '' (n/a)'')"

text \<open>The first printed line of the report; its dash is U+2013, here in UTF-8.\<close>

definition weekly_title :: string where
  "weekly_title =
     CHR 0x0A # ''Google Calendar color-hours for last week (Sun''
       @ [CHR 0xE2, CHR 0x80, CHR 0x93] @ ''Sat)''"

text \<open>The rows \<open>(color_id, color, hours)\<close> of the report, sorted.\<close>

definition weekly_rows ::
  "pyfmt \<Rightarrow> (string \<times> string option) list \<Rightarrow> (string \<times> string option) list \<Rightarrow> totals
     \<Rightarrow> (string \<times> string \<times> rat) list" where
  "weekly_rows F event_colors calendar_colors seconds_by_color_id =
     sort_reverse (\<lambda>(cid, color, hours). hours)
       (map (\<lambda>(cid, secs).
               (cid, color_label event_colors calendar_colors cid,
                round2 F (float64 (secs / 3600))))
          seconds_by_color_id)"

text \<open>
  The end of \<^verbatim>\<open>main\<close> of \<^verbatim>\<open>weekly_calendar_color_hours.py\<close>, from
  \<^verbatim>\<open># Build & print rows\<close> on; \<open>csv\<close> is \<^verbatim>\<open>args.csv\<close> (which has a default, so the
  file is always written) and \<open>from_to\<close> is the printed \<^verbatim>\<open>From: ... To: ...\<close> line.
\<close>

definition weekly_report ::
  "pyfmt \<Rightarrow> (string \<times> string option) list \<Rightarrow> (string \<times> string option) list \<Rightarrow> string
     \<Rightarrow> string \<Rightarrow> totals \<Rightarrow> report" where
  "weekly_report F event_colors calendar_colors csv from_to seconds_by_color_id =
     (let rows = weekly_rows F event_colors calendar_colors seconds_by_color_id;
          total_hours = fsum F (map (\<lambda>(cid, color, hours). hours) rows)
      in \<lparr>console =
             [weekly_title, from_to, replicate 60 (CHR ''-'')] @
             (if rows = [] then [''No events found in this window.'']
              else map (\<lambda>(cid, color, hours).
                          weekly_row F color hours (percentage hours total_hours)) rows
                   @ [replicate 60 (CHR ''-''), weekly_total F total_hours]) @
             [CHR 0x0A # ''[INFO] Wrote CSV: '' @ csv],
           csv_file =
             Some ([''color_id'', ''color'', ''hours''] #
                    map (\<lambda>(cid, color, hours). [cid, color, str_float F hours]) rows)\<rparr>)"

text \<open>A sample of the formatting parameters: hours are kept as they are and every
  text is a fixed placeholder with the name in front.\<close>

definition sample_fmt :: pyfmt where
  "sample_fmt =
     \<lparr>round2 = (\<lambda>x. x), fsum = sum_list, str_float = (\<lambda>x. ''h''), pct_cell = (\<lambda>x. ''p''),
      simple_row = (\<lambda>name hrs pct. name), simple_total = (\<lambda>x. ''Total''),
      weekly_row = (\<lambda>color hrs pct. color), weekly_total = (\<lambda>x. ''TOTAL'')\<rparr>"

subsection \<open>Sample data\<close>

text \<open>
  The event colours of the Calendar API and one calendar colour. The time line of the
  sample starts at the window start, Sunday 2024-01-07 00:00 in America/Chicago, and
  counts microseconds; the window ends seven days later.
\<close>

definition google_event_colors :: "(string \<times> string option) list" where
  "google_event_colors =
     [(''1'', Some ''#a4bdfc''), (''2'', Some ''#7ae7bf''), (''3'', Some ''#dbadff''),
      (''4'', Some ''#ff887c''), (''5'', Some ''#fbd75b''), (''6'', Some ''#ffb878''),
      (''7'', Some ''#46d6db''), (''8'', Some ''#e1e1e1''), (''9'', Some ''#5484ed''),
      (''10'', Some ''#51b749''), (''11'', Some ''#dc2127'')]"

definition sample_calendar_colors :: "(string \<times> string option) list" where
  "sample_calendar_colors = [(''14'', Some ''#9fe1e7'')]"

definition sample_timelib :: timelib where
  "sample_timelib =
     \<lparr>fromisoformat_tz =
        map_of [(''2024-01-08T06:00:00-06:00'', 108000000000),
                (''2024-01-08T07:30:00-06:00'', 113400000000)],
      combine_date_tz =
        map_of [(''2024-01-06'', - 86400000000), (''2024-01-08'', 86400000000)],
      now_tz = 120000000000\<rparr>"

definition sample_week_end :: int where
  "sample_week_end = 604800000000"

text \<open>An event from 06:00 to 07:30 on Monday 2024-01-08 with explicit colour id 9.\<close>

definition exercise_event :: event where
  "exercise_event =
     \<lparr>evt_start = Some [(''dateTime'', ''2024-01-08T06:00:00-06:00'')],
      evt_end = Some [(''dateTime'', ''2024-01-08T07:30:00-06:00'')],
      evt_colorId = Some ''9''\<rparr>"

text \<open>An all-day event from 2024-01-06 to 2024-01-08 (exclusive) without a colour.\<close>

definition all_day_event :: event where
  "all_day_event =
     \<lparr>evt_start = Some [(''date'', ''2024-01-06'')],
      evt_end = Some [(''date'', ''2024-01-08'')],
      evt_colorId = None\<rparr>"

text \<open>An event whose \<^verbatim>\<open>start\<close> and \<^verbatim>\<open>end\<close> objects are empty.\<close>

definition malformed_event :: event where
  "malformed_event = \<lparr>evt_start = Some [], evt_end = Some [], evt_colorId = None\<rparr>"




section \<open>Properties\<close>

subsection \<open>Interval clipper\<close>

lemma py_max_eq_max: "py_max a b = max a b"
  by (auto simp: py_max_def max_def)

lemma py_min_eq_min: "py_min a b = min a b"
  by (auto simp: py_min_def min_def)

lemma if_ge_swap: "(if (n::'a::linorder) \<le> m then x else y) = (if m < n then y else x)"
  by auto

lemma clip_eq:
  "clip s e lo hi = (if max s lo < min e hi then Some (max s lo, min e hi) else None)"
  unfolding clip_def py_max_eq_max py_min_eq_min Let_def by (rule if_ge_swap)

lemma clamp_interval_eq_clip: "clamp_interval s e lo hi = clip s e lo hi"
  by (simp add: clamp_interval_def clip_def)

text \<open>
  Claim C3. For every event interval \<open>[s, e)\<close> and window \<open>[start, end)\<close> the clipper of
  either script returns the overlap \<open>[max s start, min e end)\<close> when
  \<open>max s start < min e end\<close>, and \<open>None\<close> exactly when the clipped start is at or after
  the clipped end; a zero-length interval and an interval entirely outside the window
  give \<open>None\<close>. The clipper is a function of its four arguments only.
\<close>

theorem clip_contract:
  fixes s e start end' :: "'a::linorder"
  shows "clip s e start end' =
           (if max s start < min e end' then Some (max s start, min e end') else None)
       \<and> clamp_interval s e start end' = clip s e start end'
       \<and> (clip s e start end' = None \<longleftrightarrow> max s start \<ge> min e end')
       \<and> (s = e \<longrightarrow> clip s e start end' = None)
       \<and> (e \<le> start \<or> end' \<le> s \<longrightarrow> clip s e start end' = None)"
proof -
  have zero: "s = e \<longrightarrow> clip s e start end' = None"
    by (auto simp: clip_eq max_def min_def)
  have outside: "e \<le> start \<or> end' \<le> s \<longrightarrow> clip s e start end' = None"
    by (auto simp: clip_eq max_def min_def)
  have none: "clip s e start end' = None \<longleftrightarrow> max s start \<ge> min e end'"
    unfolding clip_eq by (cases "max s start < min e end'") (simp_all only: if_True if_False not_less [symmetric] simp_thms option.simps)
  from zero outside none show ?thesis
    by (simp add: clip_eq clamp_interval_eq_clip)
qed

theorem clip_contract_witness:
  "clip (1::int) 5 3 10 = Some (3, 5)
   \<and> clamp_interval (1::int) 5 3 10 = Some (3, 5)
   \<and> clip (4::int) 4 3 10 = None
   \<and> clip (0::int) 2 3 10 = None
   \<and> clip (12::int) 15 3 10 = None"
  using clip_contract [of "1::int" 5 3 10] clip_contract [of "4::int" 4 3 10]
    clip_contract [of "0::int" 2 3 10] clip_contract [of "12::int" 15 3 10]
  by simp

text \<open>
  Claim C8. The clipper is symmetric in its two intervals: clipping \<open>[s, e)\<close> against
  \<open>[start, end)\<close> gives the result of clipping \<open>[start, end)\<close> against \<open>[s, e)\<close>. It is
  idempotent: a result \<open>(cs, ce)\<close> clipped against the same window is returned unchanged.
\<close>

theorem clip_symmetric_idempotent:
  fixes s e start end' :: "'a::linorder"
  shows "clip s e start end' = clip start end' s e
       \<and> clamp_interval s e start end' = clamp_interval start end' s e
       \<and> (\<forall>cs ce. clip s e start end' = Some (cs, ce) \<longrightarrow>
            clip cs ce start end' = Some (cs, ce)
          \<and> clamp_interval cs ce start end' = Some (cs, ce))"
proof -
  have sym: "clip s e start end' = clip start end' s e"
    by (simp add: clip_eq max.commute min.commute)
  have idem: "clip cs ce start end' = Some (cs, ce)"
    if "clip s e start end' = Some (cs, ce)" for cs ce
  proof -
    from that have cs: "cs = max s start" and ce: "ce = min e end'" and lt: "cs < ce"
      by (auto simp: clip_eq split: if_splits)
    have "max cs start = cs" and "min ce end' = ce"
      by (simp_all add: cs ce)
    with lt show ?thesis by (simp add: clip_eq)
  qed
  from sym idem show ?thesis
    by (simp add: clamp_interval_eq_clip)
qed

theorem clip_symmetric_idempotent_witness:
  "clip (1::int) 5 3 10 = clip 3 10 1 5
   \<and> clip (1::int) 5 3 10 = Some (3, 5)
   \<and> clip (3::int) 5 3 10 = Some (3, 5)
   \<and> clamp_interval (3::int) 5 3 10 = Some (3, 5)"
proof -
  have h: "clip (1::int) 5 3 10 = Some (3, 5)"
    by (simp add: clip_eq)
  from clip_symmetric_idempotent [of "1::int" 5 3 10] h show ?thesis
    by simp
qed

subsection \<open>Week window resolver\<close>

lemma weekday_replace_midnight: "weekday (replace_midnight d) = weekday d"
  by (simp add: weekday_def replace_midnight_def)

lemma get_last_week_window_eq_spec:
  "clock_in_range now \<Longrightarrow> get_last_week_window now = Inr (spec_week_window now)"
  unfolding clock_in_range_def get_last_week_window_def spec_week_window_def Let_def
    sub_days_def add_days_def shift_days_def weekday_def replace_midnight_def MAXORDINAL_def
  apply (simp split: if_splits)
  apply presburger
  done

lemma last_sun_to_sat_eq:
  "clock_in_range now \<Longrightarrow>
     last_sun_to_sat now =
       Inr (shift_days (replace_midnight now) (- ((weekday now + 1) mod 7) - 7),
            shift_days (replace_midnight now) (- ((weekday now + 1) mod 7)))"
  unfolding clock_in_range_def last_sun_to_sat_def Let_def
    sub_days_def add_days_def shift_days_def MAXORDINAL_def
  apply (simp add: replace_midnight_def weekday_def)
  apply presburger
  done

lemma spec_week_window_eq:
  "spec_week_window now =
     (if weekday now = 6
      then (shift_days (replace_midnight now) (- 7), shift_days (replace_midnight now) 0)
      else (shift_days (replace_midnight now) (- ((weekday now + 1) mod 7)),
            shift_days (replace_midnight now) (7 - ((weekday now + 1) mod 7))))"
  unfolding spec_week_window_def Let_def shift_days_def
  by (simp add: replace_midnight_def weekday_def)

lemma add_days_Inr: "add_days d k = Inr d' \<Longrightarrow> d' = shift_days d k"
  by (simp add: add_days_def shift_days_def Let_def split: if_splits)

lemma sub_days_Inr: "sub_days d k = Inr d' \<Longrightarrow> d' = shift_days d (- k)"
  unfolding sub_days_def by (rule add_days_Inr)

lemma week_multiple_minus_one: "(7 * q - 1) mod 7 = (6::int)"
  by presburger

lemma before_weekday: "(m - m mod 7 - 1) mod 7 = (6::int)"
  unfolding minus_mod_eq_mult_div by (rule week_multiple_minus_one)

lemma sunday_before_simple:
  fixes n :: int
  shows "(n + - (if (n + 6) mod 7 = 6 then 7 else ((n + 6) mod 7 + 1) mod 7) + 6) mod 7 = 6"
proof (cases "(n + 6) mod 7 = 6")
  case True
  have "(n + - 7 + 6) mod 7 = (n + 6 + 7 * (- 1)) mod 7" by (simp add: algebra_simps)
  also have "\<dots> = (n + 6) mod 7" by (rule mod_mult_self2)
  finally show ?thesis using True by simp
next
  case False
  have "0 \<le> (n + 6) mod 7" and "(n + 6) mod 7 < 7" by simp_all
  with False have small: "((n + 6) mod 7 + 1) mod 7 = (n + 6) mod 7 + 1" by simp
  have "n + - ((n + 6) mod 7 + 1) + 6 = (n + 6) - (n + 6) mod 7 - 1" by simp
  with before_weekday [of "n + 6"] small False show ?thesis by simp
qed

lemma sunday_before_weekly:
  "(n + (- (((n + 6) mod 7 + 1) mod 7) - 7) + 6) mod 7 = (6::int)"
  by presburger

lemma naive_us_shift: "naive_us (shift_days d k) = naive_us d + k * 86400000000"
  by (simp add: naive_us_def shift_days_def algebra_simps)


lemma get_last_week_window_Inr:
  assumes "get_last_week_window now = Inr (start, end')"
  shows "start = shift_days (replace_midnight now)
                   (- (if weekday now = 6 then 7 else (weekday now + 1) mod 7))"
    and "end' = shift_days start 7"
proof -
  let ?today = "replace_midnight now"
  have wd: "weekday ?today = weekday now"
    by (simp add: weekday_def replace_midnight_def)
  let ?k = "if weekday now = 6 then 7 else (weekday now + 1) mod 7"
  from assms obtain last_sunday where ls: "sub_days ?today ?k = Inr last_sunday"
    and e: "add_days last_sunday 7 = Inr end'" and s: "start = last_sunday"
    unfolding get_last_week_window_def Let_def wd
    by (auto split: sum.splits if_splits)
  from sub_days_Inr [OF ls] s show "start = shift_days ?today (- ?k)" by simp
  from add_days_Inr [OF e] s show "end' = shift_days start 7" by simp
qed

lemma last_sun_to_sat_Inr:
  assumes "last_sun_to_sat now = Inr (start, end')"
  shows "start = shift_days (replace_midnight now) (- ((weekday now + 1) mod 7) - 7)"
    and "end' = shift_days start 7"
proof -
  let ?today = "replace_midnight now"
  have wd: "weekday ?today = weekday now"
    by (simp add: weekday_def replace_midnight_def)
  from assms have e: "sub_days ?today ((weekday now + 1) mod 7) = Inr end'"
    and s: "sub_days end' 7 = Inr start"
    unfolding last_sun_to_sat_def Let_def wd
    by (auto split: sum.splits)
  from sub_days_Inr [OF e] sub_days_Inr [OF s]
  show st: "start = shift_days ?today (- ((weekday now + 1) mod 7) - 7)"
    by (simp add: shift_days_def)
  from st sub_days_Inr [OF e] show "end' = shift_days start 7"
    by (simp add: shift_days_def)
qed

lemma midnight_sunday_invariant:
  assumes "start = shift_days (replace_midnight now) k"
    and "(ordinal now + k + 6) mod 7 = 6"
  shows "time_window_invariant now start (shift_days start 7)"
proof -
  have "dt_less start (shift_days start 7)"
    unfolding dt_less_def naive_us_shift by simp
  moreover have "weekday start = 6"
    using assms by (simp add: weekday_def shift_days_def replace_midnight_def)
  moreover have "hour start = 0 \<and> minute start = 0 \<and> second start = 0
      \<and> microsecond start = 0 \<and> tzinfo start = tzinfo now"
    using assms(1) by (simp add: shift_days_def replace_midnight_def)
  ultimately show ?thesis by (simp add: time_window_invariant_def)
qed

lemma get_last_week_window_invariant:
  assumes "get_last_week_window now = Inr (start, end')"
  shows "time_window_invariant now start end'"
proof -
  note r = get_last_week_window_Inr [OF assms]
  have "(ordinal now + - (if weekday now = 6 then 7 else (weekday now + 1) mod 7) + 6) mod 7 = 6"
    unfolding weekday_def by (rule sunday_before_simple)
  from midnight_sunday_invariant [OF r(1) this] r(2) show ?thesis by simp
qed

lemma last_sun_to_sat_invariant:
  assumes "last_sun_to_sat now = Inr (start, end')"
  shows "time_window_invariant now start end'"
proof -
  note r = last_sun_to_sat_Inr [OF assms]
  have "(ordinal now + (- ((weekday now + 1) mod 7) - 7) + 6) mod 7 = 6"
    unfolding weekday_def by (rule sunday_before_weekly)
  from midnight_sunday_invariant [OF r(1) this] r(2) show ?thesis by simp
qed

lemma replace_midnight_time_of_day:
  "replace_midnight (now\<lparr>hour := h, minute := m, second := s, microsecond := u\<rparr>)
     = replace_midnight now"
  by (simp add: replace_midnight_def)

text \<open>
  Claim C1, as amended. For every clock reading \<open>now\<close> in range, \<open>get_last_week_window\<close>
  returns the window of the specification's formula; on a day other than Sunday its
  start is the midnight of the most recent past Sunday. \<open>last_sun_to_sat\<close> returns that
  same window when today is a Sunday, and on every other day the window seven days
  earlier, which ends at the midnight of the most recent past Sunday.
\<close>

theorem week_window_formula:
  assumes "clock_in_range now"
  shows "get_last_week_window now = Inr (spec_week_window now)
       \<and> last_sun_to_sat now =
           Inr (if weekday now = 6 then spec_week_window now
                else (shift_days (fst (spec_week_window now)) (- 7),
                      shift_days (snd (spec_week_window now)) (- 7)))
       \<and> (weekday now \<noteq> 6 \<longrightarrow>
            fst (spec_week_window now) = replace_midnight (fst (spec_week_window now))
          \<and> weekday (fst (spec_week_window now)) = 6
          \<and> ordinal now - 6 \<le> ordinal (fst (spec_week_window now))
          \<and> ordinal (fst (spec_week_window now)) < ordinal now)"
proof -
  have simple: "get_last_week_window now = Inr (spec_week_window now)"
    using assms by (rule get_last_week_window_eq_spec)
  have weekly: "last_sun_to_sat now =
           Inr (if weekday now = 6 then spec_week_window now
                else (shift_days (fst (spec_week_window now)) (- 7),
                      shift_days (snd (spec_week_window now)) (- 7)))"
    unfolding last_sun_to_sat_eq [OF assms] spec_week_window_eq
    by (simp add: shift_days_def)
  have recent: "fst (spec_week_window now) = replace_midnight (fst (spec_week_window now))
          \<and> weekday (fst (spec_week_window now)) = 6
          \<and> ordinal now - 6 \<le> ordinal (fst (spec_week_window now))
          \<and> ordinal (fst (spec_week_window now)) < ordinal now"
    if "weekday now \<noteq> 6"
  proof -
    have "weekday (fst (spec_week_window now)) = 6
          \<and> ordinal now - 6 \<le> ordinal (fst (spec_week_window now))
          \<and> ordinal (fst (spec_week_window now)) < ordinal now"
      using that unfolding spec_week_window_eq shift_days_def weekday_def replace_midnight_def
      apply simp
      apply presburger
      done
    moreover have "fst (spec_week_window now) = replace_midnight (fst (spec_week_window now))"
      unfolding spec_week_window_eq by (simp add: shift_days_def replace_midnight_def)
    ultimately show ?thesis by simp
  qed
  from simple weekly recent show ?thesis by blast
qed

theorem week_window_formula_witness:
  "clock_in_range monday_morning
   \<and> weekday monday_morning = 0
   \<and> get_last_week_window monday_morning = Inr (spec_week_window monday_morning)
   \<and> fst (spec_week_window monday_morning) =
       \<lparr>ordinal = 738892, hour = 0, minute = 0, second = 0, microsecond = 0,
        tzinfo = ''America/Chicago''\<rparr>
   \<and> last_sun_to_sat monday_morning =
       Inr (shift_days (fst (spec_week_window monday_morning)) (- 7),
            shift_days (snd (spec_week_window monday_morning)) (- 7))"
proof -
  have r: "clock_in_range monday_morning"
    by (simp add: clock_in_range_def monday_morning_def MAXORDINAL_def)
  have w: "weekday monday_morning = 0"
    by (simp add: weekday_def monday_morning_def)
  have s: "fst (spec_week_window monday_morning) =
       \<lparr>ordinal = 738892, hour = 0, minute = 0, second = 0, microsecond = 0,
        tzinfo = ''America/Chicago''\<rparr>"
    by (simp add: spec_week_window_def weekday_def shift_days_def replace_midnight_def
        monday_morning_def Let_def)
  from week_window_formula [OF r] r w s show ?thesis by simp
qed

text \<open>
  The claim as stated fails: on Monday 2024-01-08 the two scripts return different
  windows, and the start of \<open>last_sun_to_sat\<close> is a week before the most recent Sunday.
\<close>

theorem week_window_variants_differ:
  "weekday monday_morning = 0
   \<and> get_last_week_window monday_morning =
       Inr (\<lparr>ordinal = 738892, hour = 0, minute = 0, second = 0, microsecond = 0,
             tzinfo = ''America/Chicago''\<rparr>,
            \<lparr>ordinal = 738899, hour = 0, minute = 0, second = 0, microsecond = 0,
             tzinfo = ''America/Chicago''\<rparr>)
   \<and> last_sun_to_sat monday_morning =
       Inr (\<lparr>ordinal = 738885, hour = 0, minute = 0, second = 0, microsecond = 0,
             tzinfo = ''America/Chicago''\<rparr>,
            \<lparr>ordinal = 738892, hour = 0, minute = 0, second = 0, microsecond = 0,
             tzinfo = ''America/Chicago''\<rparr>)
   \<and> last_sun_to_sat monday_morning \<noteq> Inr (spec_week_window monday_morning)
   \<and> last_sun_to_sat monday_morning \<noteq> get_last_week_window monday_morning"
  by (simp add: weekday_def monday_morning_def get_last_week_window_def last_sun_to_sat_def
      spec_week_window_def replace_midnight_def sub_days_def add_days_def shift_days_def
      MAXORDINAL_def Let_def)

text \<open>
  Claim C2. For every clock reading \<open>now\<close> in range both resolvers return a window, and
  every window either resolver returns satisfies the invariant: the start is before the
  end, the start is a Sunday at 00:00 in the timezone of \<open>now\<close>, and the end is exactly
  seven calendar days after the start. The window does not depend on the time of day of
  \<open>now\<close>.
\<close>

theorem week_window_invariant:
  "(clock_in_range now \<longrightarrow>
      (\<exists>w. get_last_week_window now = Inr w) \<and> (\<exists>w. last_sun_to_sat now = Inr w))
   \<and> (\<forall>start end'. get_last_week_window now = Inr (start, end') \<longrightarrow>
         time_window_invariant now start end')
   \<and> (\<forall>start end'. last_sun_to_sat now = Inr (start, end') \<longrightarrow>
         time_window_invariant now start end')
   \<and> get_last_week_window (now\<lparr>hour := h, minute := m, second := s, microsecond := u\<rparr>)
       = get_last_week_window now
   \<and> last_sun_to_sat (now\<lparr>hour := h, minute := m, second := s, microsecond := u\<rparr>)
       = last_sun_to_sat now"
proof -
  have total: "(\<exists>w. get_last_week_window now = Inr w) \<and> (\<exists>w. last_sun_to_sat now = Inr w)"
    if "clock_in_range now"
    using get_last_week_window_eq_spec [OF that] last_sun_to_sat_eq [OF that] by simp
  have tod1: "get_last_week_window (now\<lparr>hour := h, minute := m, second := s, microsecond := u\<rparr>)
       = get_last_week_window now"
    unfolding get_last_week_window_def replace_midnight_time_of_day ..
  have tod2: "last_sun_to_sat (now\<lparr>hour := h, minute := m, second := s, microsecond := u\<rparr>)
       = last_sun_to_sat now"
    unfolding last_sun_to_sat_def replace_midnight_time_of_day ..
  from total tod1 tod2 get_last_week_window_invariant last_sun_to_sat_invariant
  show ?thesis by blast
qed

theorem week_window_invariant_witness:
  "clock_in_range sunday_night
   \<and> get_last_week_window sunday_night =
       Inr (\<lparr>ordinal = 738892, hour = 0, minute = 0, second = 0, microsecond = 0,
             tzinfo = ''America/Chicago''\<rparr>,
            \<lparr>ordinal = 738899, hour = 0, minute = 0, second = 0, microsecond = 0,
             tzinfo = ''America/Chicago''\<rparr>)
   \<and> last_sun_to_sat sunday_night = get_last_week_window sunday_night
   \<and> time_window_invariant sunday_night
       \<lparr>ordinal = 738892, hour = 0, minute = 0, second = 0, microsecond = 0,
        tzinfo = ''America/Chicago''\<rparr>
       \<lparr>ordinal = 738899, hour = 0, minute = 0, second = 0, microsecond = 0,
        tzinfo = ''America/Chicago''\<rparr>"
proof -
  have r: "clock_in_range sunday_night"
    by (simp add: clock_in_range_def sunday_night_def MAXORDINAL_def)
  have g: "get_last_week_window sunday_night =
       Inr (\<lparr>ordinal = 738892, hour = 0, minute = 0, second = 0, microsecond = 0,
             tzinfo = ''America/Chicago''\<rparr>,
            \<lparr>ordinal = 738899, hour = 0, minute = 0, second = 0, microsecond = 0,
             tzinfo = ''America/Chicago''\<rparr>)"
    by (simp add: weekday_def sunday_night_def get_last_week_window_def
        replace_midnight_def sub_days_def add_days_def MAXORDINAL_def Let_def)
  have l: "last_sun_to_sat sunday_night = get_last_week_window sunday_night"
    unfolding g
    by (simp add: weekday_def sunday_night_def last_sun_to_sat_def
        replace_midnight_def sub_days_def add_days_def MAXORDINAL_def Let_def)
  from week_window_invariant [of sunday_night] r g l show ?thesis by simp
qed

subsection \<open>Event times\<close>

lemma getitem_missing: "\<not> dict_contains d k \<Longrightarrow> getitem d k = Inl (KeyError k)"
proof -
  assume "\<not> dict_contains d k"
  then have "map_of d k = None"
    by (simp add: dict_contains_def map_of_eq_None_iff)
  then show ?thesis by (simp add: getitem_def)
qed

lemma clip_zero_length: "clip (t::int) t lo hi = None"
  by (simp add: clip_eq)

text \<open>
  Claim C7. For an event whose \<^verbatim>\<open>start\<close> object has neither a \<^verbatim>\<open>dateTime\<close> nor a
  \<^verbatim>\<open>date\<close> field, \<^verbatim>\<open>parse_event_times\<close> of \<^verbatim>\<open>weekly_calendar_color_hours.py\<close>
  returns the zero-length interval \<open>(now, now)\<close>, not all-day, and the event adds nothing
  to the totals. \<^verbatim>\<open>parse_event_times\<close> of \<^verbatim>\<open>simple_color_hours.py\<close> has no such
  branch: it reads \<^verbatim>\<open>s["date"]\<close> and raises \<^verbatim>\<open>KeyError\<close>, which ends the run.
\<close>

theorem malformed_event_times:
  assumes "\<not> dict_contains (get_or_empty (evt_start evt)) ''dateTime''"
    and "\<not> dict_contains (get_or_empty (evt_start evt)) ''date''"
  shows "weekly_parse_event_times L evt = Inr (now_tz L, now_tz L, False)
       \<and> weekly_event_body L count_all_day week_start week_end cal_default_color_id evt
           = Inr None
       \<and> simple_parse_event_times L evt = Inl (KeyError ''date'')
       \<and> simple_event_body L count_all_day week_start week_end cal_default_hex event_colors evt
           = Inl (KeyError ''date'')"
proof -
  have w: "weekly_parse_event_times L evt = Inr (now_tz L, now_tz L, False)"
    using assms by (simp add: weekly_parse_event_times_def Let_def)
  have s: "simple_parse_event_times L evt = Inl (KeyError ''date'')"
    using assms(1) getitem_missing [OF assms(2)]
    by (simp add: simple_parse_event_times_def Let_def)
  from w s show ?thesis
    by (simp add: weekly_event_body_def simple_event_body_def clamp_interval_eq_clip
        clip_zero_length)
qed

theorem malformed_event_times_witness:
  "weekly_parse_event_times sample_timelib malformed_event
     = Inr (120000000000, 120000000000, False)
   \<and> weekly_event_body sample_timelib True 0 sample_week_end (Some ''14'') malformed_event
       = Inr None
   \<and> simple_parse_event_times sample_timelib malformed_event = Inl (KeyError ''date'')
   \<and> simple_event_body sample_timelib True 0 sample_week_end (Some ''#9fe1e7'')
         google_event_colors malformed_event = Inl (KeyError ''date'')"
proof -
  have a: "\<not> dict_contains (get_or_empty (evt_start malformed_event)) ''dateTime''"
    and b: "\<not> dict_contains (get_or_empty (evt_start malformed_event)) ''date''"
    by (simp_all add: malformed_event_def get_or_empty_def dict_contains_def)
  have n: "now_tz sample_timelib = 120000000000"
    by (simp add: sample_timelib_def)
  from malformed_event_times [OF a b, of sample_timelib True 0 sample_week_end "Some ''14''"
      "Some ''#9fe1e7''" google_event_colors] n
  show ?thesis by simp
qed

subsection \<open>Colour resolver\<close>

lemma labelled_8: "labelled (Some ''8'')"
  by (simp add: labelled_def truthy_def dict_contains_def CUSTOM_COLOR_NAMES_def)

lemma getitem_8: "getitem CUSTOM_COLOR_NAMES ''8'' = Inr ''Sleep''"
  by (simp add: getitem_def CUSTOM_COLOR_NAMES_def)

text \<open>
  Claim C5. An event with explicit colour id \<open>8\<close> is labelled \<open>Sleep\<close>, whatever the
  calendar's default hex and the table of event colours are; the fallback is not
  consulted, so a table entry that does not parse cannot raise.
\<close>

theorem explicit_color_8_is_sleep:
  "decide_label (Some ''8'') cal_default_hex event_colors = Inr ''Sleep''
   \<and> (evt_colorId evt = Some ''8'' \<longrightarrow>
        (\<forall>label dur.
           simple_event_body L count_all_day start end' cal_default_hex event_colors evt
             = Inr (Some (label, dur)) \<longrightarrow> label = ''Sleep''))"
proof -
  have d: "decide_label (Some ''8'') h ec = Inr ''Sleep''" for h ec
    by (simp add: decide_label_def labelled_8 getitem_8)
  show ?thesis using d
    by (auto simp: simple_event_body_def Let_def split: sum.splits option.splits if_splits)
qed

theorem explicit_color_8_is_sleep_witness:
  "decide_label (Some ''8'') (Some ''#12345'') [(''1'', Some ''zz'')] = Inr ''Sleep''
   \<and> decide_label (Some ''12'') (Some ''#12345'') [(''1'', Some ''zz'')] = Inl ValueError
   \<and> simple_event_body sample_timelib False 0 sample_week_end (Some ''#12345'')
         [(''1'', Some ''zz'')] (exercise_event\<lparr>evt_colorId := Some ''8''\<rparr>)
       = Inr (Some (''Sleep'', 5400))"
proof -
  have e: "simple_event_body sample_timelib False 0 sample_week_end (Some ''#12345'')
         [(''1'', Some ''zz'')] (exercise_event\<lparr>evt_colorId := Some ''8''\<rparr>)
       = Inr (Some (''Sleep'', 5400))"
    by code_simp
  have f: "decide_label (Some ''12'') (Some ''#12345'') [(''1'', Some ''zz'')] = Inl ValueError"
    by code_simp
  from explicit_color_8_is_sleep [of "Some ''#12345''" "[(''1'', Some ''zz'')]"
      "exercise_event\<lparr>evt_colorId := Some ''8''\<rparr>" sample_timelib False 0 sample_week_end] e f
  show ?thesis by simp
qed

lemma hex_digit_value_iff_all: "\<forall>c. (hex_digit_value c \<noteq> None) = is_hex c"
  by code_simp

lemma char_classes_all:
  "\<forall>c. (is_space c \<longrightarrow> \<not> is_hex c \<and> c \<noteq> CHR ''+'' \<and> c \<noteq> CHR ''-'' \<and> c \<noteq> CHR ''_'')
     \<and> (is_hex c \<longrightarrow> c \<noteq> CHR ''+'' \<and> c \<noteq> CHR ''-'' \<and> c \<noteq> CHR ''_''
                      \<and> c \<noteq> CHR ''x'' \<and> c \<noteq> CHR ''X'')"
  by code_simp

lemma hex_digit_value_None: "\<not> is_hex c \<Longrightarrow> hex_digit_value c = None"
  using hex_digit_value_iff_all by blast

lemma hex_digit_value_Some: "is_hex c \<Longrightarrow> \<exists>v. hex_digit_value c = Some v"
  using hex_digit_value_iff_all by blast

lemma space_facts:
  "is_space c \<Longrightarrow> \<not> is_hex c \<and> c \<noteq> CHR ''+'' \<and> c \<noteq> CHR ''-'' \<and> c \<noteq> CHR ''_''"
  using char_classes_all by blast

lemma hex_facts:
  "is_hex c \<Longrightarrow> \<not> is_space c \<and> c \<noteq> CHR ''+'' \<and> c \<noteq> CHR ''-'' \<and> c \<noteq> CHR ''_''
                 \<and> c \<noteq> CHR ''x'' \<and> c \<noteq> CHR ''X''"
  using char_classes_all by blast

lemma py_int16_Nil: "py_int16 [] = None"
  by (simp add: py_int16_def)

lemma strip_single:
  "rev (dropWhile is_space (rev (dropWhile is_space [a]))) = (if is_space a then [] else [a])"
  by simp

lemma strip_pair:
  "rev (dropWhile is_space (rev (dropWhile is_space [a, b]))) =
     (if is_space a then (if is_space b then [] else [b])
      else if is_space b then [a] else [a, b])"
  by simp

lemma py_int16_single: "(py_int16 [a] \<noteq> None) = is_hex a"
proof (cases "is_hex a")
  case True
  from hex_facts [OF True] have f: "\<not> is_space a" "a \<noteq> CHR ''+''" "a \<noteq> CHR ''-''" "a \<noteq> CHR ''_''"
    by simp_all
  from hex_digit_value_Some [OF True] obtain v where v: "hex_digit_value a = Some v" by blast
  show ?thesis unfolding py_int16_def strip_single Let_def
    using True f v by simp
next
  case False
  note n = hex_digit_value_None [OF False]
  show ?thesis unfolding py_int16_def strip_single Let_def
    using False n by simp
qed


lemma accepted_pair:
  "accepted_slice [a, b] =
     ((is_hex a \<and> (is_hex b \<or> is_space b))
      \<or> ((is_space a \<or> a = CHR ''+'' \<or> a = CHR ''-'') \<and> is_hex b))"
  by (simp add: accepted_slice_def)

lemma py_int16_pair: "(py_int16 [a, b] \<noteq> None) = accepted_slice [a, b]"
proof (cases "is_hex a")
  case ha: True
  from hex_facts [OF ha] have fa: "\<not> is_space a" "a \<noteq> CHR ''+''" "a \<noteq> CHR ''-''" "a \<noteq> CHR ''_''"
    by simp_all
  from hex_digit_value_Some [OF ha] obtain v where v: "hex_digit_value a = Some v" by blast
  show ?thesis
  proof (cases "is_hex b")
    case hb: True
    from hex_facts [OF hb] have fb: "\<not> is_space b" "b \<noteq> CHR ''_''" "b \<noteq> CHR ''x''" "b \<noteq> CHR ''X''"
      by simp_all
    from hex_digit_value_Some [OF hb] obtain w where w: "hex_digit_value b = Some w" by blast
    show ?thesis unfolding py_int16_def strip_pair Let_def accepted_pair
      using ha hb fa fb v w by simp
  next
    case nb: False
    note wn = hex_digit_value_None [OF nb]
    show ?thesis
    proof (cases "is_space b")
      case True
      show ?thesis unfolding py_int16_def strip_pair Let_def accepted_pair
        using ha nb fa v True by simp
    next
      case False
      show ?thesis unfolding py_int16_def strip_pair Let_def accepted_pair
        using ha nb fa v wn False by simp
    qed
  qed
next
  case na: False
  note vn = hex_digit_value_None [OF na]
  show ?thesis
  proof (cases "is_space a")
    case sa: True
    from space_facts [OF sa] have fa: "a \<noteq> CHR ''+''" "a \<noteq> CHR ''-''" "a \<noteq> CHR ''_''"
      by simp_all
    have "(py_int16 [b] \<noteq> None) = is_hex b" by (rule py_int16_single)
    moreover have "py_int16 [a, b] = py_int16 [b]"
      unfolding py_int16_def using sa by simp
    ultimately show ?thesis unfolding accepted_pair using na sa fa by simp
  next
    case nsa: False
    show ?thesis
    proof (cases "a = CHR ''+'' \<or> a = CHR ''-''")
      case sign: True
      show ?thesis
      proof (cases "is_hex b")
        case hb: True
        from hex_facts [OF hb] have fb: "\<not> is_space b" "b \<noteq> CHR ''_''" by simp_all
        from hex_digit_value_Some [OF hb] obtain w where w: "hex_digit_value b = Some w" by blast
        show ?thesis unfolding py_int16_def strip_pair Let_def accepted_pair
          using na nsa sign hb fb w by auto
      next
        case nb: False
        note wn = hex_digit_value_None [OF nb]
        show ?thesis unfolding py_int16_def strip_pair Let_def accepted_pair
          using na nsa sign nb wn by auto
      qed
    next
      case nsign: False
      show ?thesis unfolding py_int16_def strip_pair Let_def accepted_pair
        using na nsa nsign vn by auto
    qed
  qed
qed


lemma py_int16_short: "length s \<le> 2 \<Longrightarrow> (py_int16 s \<noteq> None) = accepted_slice s"
proof (cases s)
  case Nil
  then show ?thesis by (simp add: py_int16_Nil accepted_slice_def)
next
  case (Cons a s')
  assume len: "length s \<le> 2"
  show ?thesis
  proof (cases s')
    case Nil
    with Cons have s: "s = [a]" by simp
    have "accepted_slice [a] = is_hex a" by (simp add: accepted_slice_def)
    with py_int16_single [of a] show ?thesis unfolding s by (simp only:)
  next
    case (Cons b s'')
    with \<open>s = a # s'\<close> len have "s = [a, b]" by simp
    then show ?thesis by (simp only: py_int16_pair)
  qed
qed

lemma hex_to_rgb_None_iff: "(hex_to_rgb hx = None) = rejected_hex hx"
proof -
  define h where "h = dropWhile (\<lambda>c. c = CHR ''#'') hx"
  have a: "(py_int16 (take 2 h) \<noteq> None) = accepted_slice (take 2 h)"
    and b: "(py_int16 (take 2 (drop 2 h)) \<noteq> None) = accepted_slice (take 2 (drop 2 h))"
    and c: "(py_int16 (take 2 (drop 4 h)) \<noteq> None) = accepted_slice (take 2 (drop 4 h))"
    by (rule py_int16_short, simp)+
  show ?thesis
    unfolding hex_to_rgb_def rejected_hex_def Let_def h_def [symmetric]
    using a b c by (auto split: option.splits)
qed

lemma accepted_slice_chars:
  "accepted_slice s \<Longrightarrow> c \<in> set s \<Longrightarrow>
     is_hex c \<or> is_space c \<or> c = CHR ''+'' \<or> c = CHR ''-''"
proof (cases s)
  case Nil
  assume "c \<in> set s" with Nil show ?thesis by simp
next
  case (Cons a s')
  assume acc: "accepted_slice s" and mem: "c \<in> set s"
  show ?thesis
  proof (cases s')
    case Nil
    with Cons acc mem show ?thesis by (simp add: accepted_slice_def)
  next
    case (Cons b s'')
    show ?thesis
    proof (cases s'')
      case Nil
      with \<open>s = a # s'\<close> \<open>s' = b # s''\<close> have "s = [a, b]" by simp
      with acc mem show ?thesis by (auto simp: accepted_pair)
    next
      case (Cons x xs)
      with \<open>s = a # s'\<close> \<open>s' = b # s''\<close> acc show ?thesis by (simp add: accepted_slice_def)
    qed
  qed
qed

lemma accepted_slice_hex:
  "s \<noteq> [] \<Longrightarrow> length s \<le> 2 \<Longrightarrow> list_all is_hex s \<Longrightarrow> accepted_slice s"
proof (cases s)
  case Nil
  assume "s \<noteq> []" with Nil show ?thesis by simp
next
  case (Cons a s')
  assume len: "length s \<le> 2" and hex: "list_all is_hex s"
  show ?thesis
  proof (cases s')
    case Nil
    with Cons hex show ?thesis by (simp add: accepted_slice_def)
  next
    case (Cons b s'')
    with \<open>s = a # s'\<close> len have "s = [a, b]" by simp
    with hex show ?thesis by (simp add: accepted_pair)
  qed
qed

lemma take6_slices: "take 6 h = take 2 h @ take 2 (drop 2 h) @ take 2 (drop 4 h)"
proof -
  have "take 6 h = take 2 h @ take 4 (drop 2 h)"
    using take_add [of 2 4 h] by simp
  also have "take 4 (drop 2 h) = take 2 (drop 2 h) @ take 2 (drop 2 (drop 2 h))"
    using take_add [of 2 2 "drop 2 h"] by simp
  finally show ?thesis by simp
qed

lemma rejected_short:
  "length (dropWhile (\<lambda>c. c = CHR ''#'') hx) < 5 \<Longrightarrow> rejected_hex hx"
  by (simp add: rejected_hex_def Let_def accepted_slice_def)

lemma rejected_bad_char:
  assumes "c \<in> set (take 6 (dropWhile (\<lambda>c. c = CHR ''#'') hx))"
    and "\<not> is_hex c" "\<not> is_space c" "c \<noteq> CHR ''+''" "c \<noteq> CHR ''-''"
  shows "rejected_hex hx"
proof (rule ccontr)
  define h where "h = dropWhile (\<lambda>c. c = CHR ''#'') hx"
  assume "\<not> rejected_hex hx"
  then have acc: "accepted_slice (take 2 h)" "accepted_slice (take 2 (drop 2 h))"
      "accepted_slice (take 2 (drop 4 h))"
    by (simp_all add: rejected_hex_def Let_def h_def)
  from assms(1) have "c \<in> set (take 2 h) \<or> c \<in> set (take 2 (drop 2 h))
      \<or> c \<in> set (take 2 (drop 4 h))"
    unfolding h_def [symmetric] take6_slices by simp
  with acc accepted_slice_chars [of _ c] assms(2-5) show False by blast
qed

lemma accepted_hex_digits:
  assumes "5 \<le> length (dropWhile (\<lambda>c. c = CHR ''#'') hx)"
    and "list_all is_hex (take 6 (dropWhile (\<lambda>c. c = CHR ''#'') hx))"
  shows "\<not> rejected_hex hx"
proof -
  define h where "h = dropWhile (\<lambda>c. c = CHR ''#'') hx"
  from assms(2) have all: "list_all is_hex (take 2 h)" "list_all is_hex (take 2 (drop 2 h))"
      "list_all is_hex (take 2 (drop 4 h))"
    unfolding h_def [symmetric] take6_slices by simp_all
  from assms(1) have ne: "take 2 h \<noteq> []" "take 2 (drop 2 h) \<noteq> []" "take 2 (drop 4 h) \<noteq> []"
    unfolding h_def [symmetric] by auto
  have "accepted_slice (take 2 h)" "accepted_slice (take 2 (drop 2 h))"
      "accepted_slice (take 2 (drop 4 h))"
    using ne all by (simp_all add: accepted_slice_hex)
  then show ?thesis by (simp add: rejected_hex_def Let_def h_def)
qed

text \<open>
  Claim C6, as amended. For an event without an explicit colour id in the label map,
  whose calendar default hex (a string of code points below 256) is rejected by
  \<open>hex_to_rgb\<close>, the label is \<open>Miscellaneous\<close> and nothing is raised. The rejected strings
  are those where, after the leading \<open>#\<close> characters, one of the slices at offsets 0, 2
  and 4 is not a hexadecimal digit, two hexadecimal digits, a digit followed by white
  space, or a digit after white space or a sign. Every string with fewer than five
  characters after the \<open>#\<close>s is rejected, and so is every string with a character among
  the first six that is not a hexadecimal digit, white space or a sign. A string whose
  first six characters after the \<open>#\<close>s (all five, when it has only five) are hexadecimal
  digits is not rejected, whatever its length: it is read as a colour and resolved to the
  nearest event colour.
\<close>

theorem malformed_hex_is_miscellaneous:
  "(hex_to_rgb hx = None) = rejected_hex hx
   \<and> (\<not> labelled cid \<and> rejected_hex hx \<longrightarrow>
        decide_label cid (Some hx) event_colors = Inr ''Miscellaneous'')
   \<and> (length (dropWhile (\<lambda>c. c = CHR ''#'') hx) < 5 \<longrightarrow> rejected_hex hx)
   \<and> ((\<exists>c \<in> set (take 6 (dropWhile (\<lambda>c. c = CHR ''#'') hx)).
          \<not> is_hex c \<and> \<not> is_space c \<and> c \<noteq> CHR ''+'' \<and> c \<noteq> CHR ''-'') \<longrightarrow> rejected_hex hx)
   \<and> (5 \<le> length (dropWhile (\<lambda>c. c = CHR ''#'') hx)
        \<and> list_all is_hex (take 6 (dropWhile (\<lambda>c. c = CHR ''#'') hx)) \<longrightarrow>
        \<not> rejected_hex hx
        \<and> (\<exists>rgb. hex_to_rgb hx = Some rgb
              \<and> nearest_event_color_id hx event_colors
                  = nearest_loop rgb event_colors None (10 ^ 9)))"
proof -
  have misc: "decide_label cid (Some hx) event_colors = Inr ''Miscellaneous''"
    if "\<not> labelled cid" and "rejected_hex hx"
    using that by (simp add: decide_label_def nearest_event_color_id_def
        hex_to_rgb_None_iff [symmetric])
  have parsed: "\<exists>rgb. hex_to_rgb hx = Some rgb
              \<and> nearest_event_color_id hx event_colors
                  = nearest_loop rgb event_colors None (10 ^ 9)"
    if "\<not> rejected_hex hx"
  proof -
    from that have "hex_to_rgb hx \<noteq> None" by (simp add: hex_to_rgb_None_iff)
    then obtain rgb where "hex_to_rgb hx = Some rgb" by blast
    then show ?thesis by (simp add: nearest_event_color_id_def)
  qed
  from misc parsed hex_to_rgb_None_iff [of hx] rejected_short [of hx] rejected_bad_char [of _ hx]
    accepted_hex_digits [of hx]
  show ?thesis by blast
qed

theorem malformed_hex_is_miscellaneous_witness:
  "\<not> labelled None
   \<and> rejected_hex ''#12x456'' \<and> hex_to_rgb ''#12x456'' = None
   \<and> decide_label None (Some ''#12x456'') google_event_colors = Inr ''Miscellaneous''
   \<and> rejected_hex ''#1234''
   \<and> decide_label None (Some ''#1234'') google_event_colors = Inr ''Miscellaneous''
   \<and> \<not> rejected_hex ''##1234567''
   \<and> hex_to_rgb ''##1234567'' = Some (18, 52, 86)"
proof -
  have a: "\<not> labelled None" by (simp add: labelled_def truthy_def)
  have bad: "\<exists>c \<in> set (take 6 (dropWhile (\<lambda>c. c = CHR ''#'') ''#12x456'')).
          \<not> is_hex c \<and> \<not> is_space c \<and> c \<noteq> CHR ''+'' \<and> c \<noteq> CHR ''-''"
    by code_simp
  have short: "length (dropWhile (\<lambda>c. c = CHR ''#'') ''#1234'') < 5"
    by simp
  have long: "5 \<le> length (dropWhile (\<lambda>c. c = CHR ''#'') ''##1234567'')
        \<and> list_all is_hex (take 6 (dropWhile (\<lambda>c. c = CHR ''#'') ''##1234567''))"
    by code_simp
  have v: "hex_to_rgb ''##1234567'' = Some (18, 52, 86)"
    by code_simp
  from malformed_hex_is_miscellaneous [of "''#12x456''" None google_event_colors]
    malformed_hex_is_miscellaneous [of "''#1234''" None google_event_colors]
    malformed_hex_is_miscellaneous [of "''##1234567''" None google_event_colors]
    a bad short long v
  show ?thesis by blast
qed

text \<open>
  The claim as stated fails for a string that is not a six-digit colour and that
  \<open>hex_to_rgb\<close> accepts all the same: the five-digit \<open>#12345\<close> is read as the colour
  \<open>(0x12, 0x34, 0x5)\<close>, and the event gets the label of the nearest event colour.
\<close>

theorem five_digit_hex_is_parsed:
  "\<not> labelled None \<and> hex_to_rgb ''#12345'' = Some (18, 52, 5)
   \<and> decide_label None (Some ''#12345'') google_event_colors = Inr ''Project''"
proof -
  have a: "\<not> labelled None" by (simp add: labelled_def truthy_def)
  have b: "hex_to_rgb ''#12345'' = Some (18, 52, 5)" by code_simp
  have c: "decide_label None (Some ''#12345'') google_event_colors = Inr ''Project''"
    by code_simp
  from a b c show ?thesis by simp
qed

subsection \<open>Floating point\<close>





subsection \<open>Aggregator\<close>



































subsection \<open>Report formatter\<close>

lemma for_events_nothing:
  "list_all (\<lambda>evt. body evt = Inr None) evs \<Longrightarrow> for_events body evs acc = Inr acc"
  by (induction evs) simp_all

lemma sort_reverse_Nil: "sort_reverse key [] = []"
  by (simp add: sort_reverse_def)

lemma set_sort_reverse: "set (sort_reverse key rows) = set rows"
  by (simp add: sort_reverse_def)

text \<open>
  Claim C9. On empty totals neither report fails. The label script prints
  \<open>No events found in this time window.\<close> and, when a CSV path is given, writes the one
  header row \<open>label,hours\<close> and no data row. The raw-colour-id script prints
  \<open>No events found in this window.\<close> among its lines and writes the one header row
  \<open>color_id,color,hours\<close> and no data row. The totals are empty when every event of the
  run was skipped.
\<close>

theorem empty_report:
  "simple_report F csv date_range [] =
     \<lparr>console = [''No events found in this time window.''],
      csv_file = (if truthy csv then Some [[''label'', ''hours'']] else None)\<rparr>
   \<and> weekly_report F event_colors calendar_colors csv_name from_to [] =
     \<lparr>console = [weekly_title, from_to, replicate 60 (CHR ''-''),
                 ''No events found in this window.'',
                 CHR 0x0A # ''[INFO] Wrote CSV: '' @ csv_name],
      csv_file = Some [[''color_id'', ''color'', ''hours'']]\<rparr>
   \<and> take 15 ''No events found in this time window.'' = ''No events found''
   \<and> take 15 ''No events found in this window.'' = ''No events found''
   \<and> (list_all (\<lambda>evt. body evt = Inr None) evs \<longrightarrow> for_events body evs [] = Inr [])"
  using for_events_nothing [of body evs "[]"]
  by (simp add: simple_report_def weekly_report_def weekly_rows_def sort_reverse_Nil)

theorem empty_report_witness:
  "simple_report sample_fmt (Some ''out.csv'') ''Sun to Sat'' [] =
     \<lparr>console = [''No events found in this time window.''],
      csv_file = Some [[''label'', ''hours'']]\<rparr>
   \<and> simple_report sample_fmt None ''Sun to Sat'' [] =
     \<lparr>console = [''No events found in this time window.''], csv_file = None\<rparr>
   \<and> csv_file (weekly_report sample_fmt google_event_colors sample_calendar_colors
         ''weekly_color_hours.csv'' ''From: To:'' []) = Some [[''color_id'', ''color'', ''hours'']]
   \<and> for_events (weekly_event_body sample_timelib True 0 sample_week_end None)
         [malformed_event] [] = Inr []"
proof -
  have b: "list_all (\<lambda>evt. weekly_event_body sample_timelib True 0 sample_week_end None evt
                            = Inr None) [malformed_event]"
    by code_simp
  from empty_report [of sample_fmt "Some ''out.csv''" "''Sun to Sat''" google_event_colors
        sample_calendar_colors "''weekly_color_hours.csv''" "''From: To:''"
        "weekly_event_body sample_timelib True 0 sample_week_end None" "[malformed_event]"]
      empty_report [of sample_fmt None "''Sun to Sat''" google_event_colors
        sample_calendar_colors "''weekly_color_hours.csv''" "''From: To:''"
        "weekly_event_body sample_timelib True 0 sample_week_end None" "[malformed_event]"]
      b
  show ?thesis by (simp add: truthy_def)
qed

lemma color_label_default:
  "\<not> dict_contains event_colors ''default'' \<Longrightarrow> \<not> dict_contains calendar_colors ''default''
     \<Longrightarrow> color_label event_colors calendar_colors ''default'' = ''default (n/a)''"
  by (simp add: color_label_def)

lemma weekly_rows_member:
  "(cid, secs) \<in> set acc \<Longrightarrow>
     (cid, color_label ec cc cid, round2 F (float64 (secs / 3600)))
       \<in> set (weekly_rows F ec cc acc)"
  unfolding weekly_rows_def set_sort_reverse by force

lemma keys_dd_add: "set (map fst (dd_add acc k v)) = insert k (set (map fst acc))"
proof (induction acc)
  case Nil
  show ?case by simp
next
  case (Cons a acc)
  obtain k' x where a: "a = (k', x)" by (cases a)
  show ?case
  proof (cases "k' = k")
    case True
    with a show ?thesis by auto
  next
    case False
    with a Cons.IH show ?thesis by auto
  qed
qed

lemma dict_contains_dd_add:
  "dict_contains (dd_add acc k v) k' = (k' = k \<or> dict_contains acc k')"
  unfolding dict_contains_def keys_dd_add by simp

lemma map_of_dd_add:
  "map_of (dd_add acc k v) k
     = Some (float64 ((case map_of acc k of None \<Rightarrow> 0 | Some x \<Rightarrow> x) + v))"
  by (induction acc) auto

lemma map_of_dd_add_other: "k' \<noteq> k \<Longrightarrow> map_of (dd_add acc k v) k' = map_of acc k'"
  by (induction acc) auto

lemma for_events_keeps_keys:
  "for_events body evs acc = Inr acc' \<Longrightarrow> dict_contains acc k \<Longrightarrow> dict_contains acc' k"
proof (induction evs arbitrary: acc)
  case Nil
  then show ?case by simp
next
  case (Cons evt evs)
  show ?case
  proof (cases "body evt")
    case (Inl err)
    with Cons.prems show ?thesis by simp
  next
    case (Inr r)
    show ?thesis
    proof (cases r)
      case None
      with Inr Cons show ?thesis by simp
    next
      case (Some kd)
      obtain k1 d where kd: "kd = (k1, d)" by (cases kd)
      from Cons.prems(1) Inr Some kd have "for_events body evs (dd_add acc k1 d) = Inr acc'"
        by simp
      moreover from Cons.prems(2) have "dict_contains (dd_add acc k1 d) k"
        by (simp add: dict_contains_dd_add)
      ultimately show ?thesis by (rule Cons.IH)
    qed
  qed
qed

lemma for_events_adds_key:
  "evt \<in> set evs \<Longrightarrow> body evt = Inr (Some (k, d)) \<Longrightarrow> for_events body evs acc = Inr acc'
     \<Longrightarrow> dict_contains acc' k"
proof (induction evs arbitrary: acc)
  case Nil
  then show ?case by simp
next
  case (Cons x evs)
  show ?case
  proof (cases "x = evt")
    case True
    with Cons.prems have run: "for_events body evs (dd_add acc k d) = Inr acc'" by simp
    have "dict_contains (dd_add acc k d) k" by (simp add: dict_contains_dd_add)
    with run show ?thesis by (rule for_events_keeps_keys)
  next
    case False
    with Cons.prems(1) have mem: "evt \<in> set evs" by simp
    from Cons.prems(3) obtain mid where "for_events body evs mid = Inr acc'"
      by (cases "body x") (auto split: option.splits)
    from Cons.IH [OF mem Cons.prems(2) this] show ?thesis .
  qed
qed

lemma weekly_main_loop_keeps_keys:
  "weekly_main_loop L cad ws we cals acc = Inr acc' \<Longrightarrow> dict_contains acc k
     \<Longrightarrow> dict_contains acc' k"
proof (induction cals arbitrary: acc)
  case Nil
  then show ?case by simp
next
  case (Cons cal cals)
  from Cons.prems(1) obtain mid
    where mid: "for_events (weekly_event_body L cad ws we (cal_colorId cal)) (cal_events cal) acc
                  = Inr mid"
      and tail: "weekly_main_loop L cad ws we cals mid = Inr acc'"
    by (auto simp: Let_def split: sum.splits)
  from for_events_keeps_keys [OF mid Cons.prems(2)] have "dict_contains mid k" .
  with tail show ?case by (rule Cons.IH)
qed

lemma weekly_main_loop_adds_key:
  "cal \<in> set cals \<Longrightarrow> evt \<in> set (cal_events cal) \<Longrightarrow>
   weekly_event_body L cad ws we (cal_colorId cal) evt = Inr (Some (k, d)) \<Longrightarrow>
   weekly_main_loop L cad ws we cals acc = Inr acc' \<Longrightarrow> dict_contains acc' k"
proof (induction cals arbitrary: acc)
  case Nil
  then show ?case by simp
next
  case (Cons c cals)
  from Cons.prems(4) obtain mid
    where mid: "for_events (weekly_event_body L cad ws we (cal_colorId c)) (cal_events c) acc
                  = Inr mid"
      and tail: "weekly_main_loop L cad ws we cals mid = Inr acc'"
    by (auto simp: Let_def split: sum.splits)
  show ?case
  proof (cases "c = cal")
    case True
    from for_events_adds_key [OF Cons.prems(2) Cons.prems(3) mid [unfolded True]]
    have "dict_contains mid k" .
    with tail show ?thesis by (rule weekly_main_loop_keeps_keys)
  next
    case False
    with Cons.prems(1) have "cal \<in> set cals" by simp
    from Cons.IH [OF this Cons.prems(2,3) tail] show ?thesis .
  qed
qed

lemma dict_contains_entry: "dict_contains d k \<Longrightarrow> \<exists>v. (k, v) \<in> set d"
  by (auto simp: dict_contains_def)

lemma default_row_reported:
  assumes lab: "color_label event_colors calendar_colors ''default'' = ''default (n/a)''"
    and m: "(''default'', secs) \<in> set seconds_by_color_id"
  shows "\<exists>hours pct.
           hours = round2 F (float64 (secs / 3600))
         \<and> [''default'', ''default (n/a)'', str_float F hours]
             \<in> set (case csv_file (weekly_report F event_colors calendar_colors csv
                                     from_to seconds_by_color_id) of
                       None \<Rightarrow> [] | Some rows \<Rightarrow> rows)
         \<and> weekly_row F ''default (n/a)'' hours pct
             \<in> set (console (weekly_report F event_colors calendar_colors csv
                               from_to seconds_by_color_id))"
proof -
  let ?rows = "weekly_rows F event_colors calendar_colors seconds_by_color_id"
  let ?h = "round2 F (float64 (secs / 3600))"
  let ?total = "fsum F (map (\<lambda>(cid, color, hours). hours) ?rows)"
  from weekly_rows_member [OF m, of event_colors calendar_colors F] lab
  have row: "(''default'', ''default (n/a)'', ?h) \<in> set ?rows" by simp
  then have ne: "?rows \<noteq> []" by auto
  from row have "(\<lambda>(cid, color, hours). [cid, color, str_float F hours])
                   (''default'', ''default (n/a)'', ?h)
                 \<in> (\<lambda>(cid, color, hours). [cid, color, str_float F hours]) ` set ?rows"
    by (rule imageI)
  then have c: "[''default'', ''default (n/a)'', str_float F ?h]
      \<in> set (case csv_file (weekly_report F event_colors calendar_colors csv
                              from_to seconds_by_color_id) of
                None \<Rightarrow> [] | Some rows \<Rightarrow> rows)"
    by (simp add: weekly_report_def Let_def)
  from row have "(\<lambda>(cid, color, hours). weekly_row F color hours (percentage hours ?total))
                   (''default'', ''default (n/a)'', ?h)
                 \<in> (\<lambda>(cid, color, hours). weekly_row F color hours (percentage hours ?total))
                     ` set ?rows"
    by (rule imageI)
  with ne have p: "weekly_row F ''default (n/a)'' ?h (percentage ?h ?total)
      \<in> set (console (weekly_report F event_colors calendar_colors csv
                        from_to seconds_by_color_id))"
    by (simp add: weekly_report_def Let_def)
  from c p show ?thesis by blast
qed

text \<open>
  Claim C10. In the raw-colour-id script a counted event (one that parses, overlaps the
  window and passes the all-day filter) whose explicit \<^verbatim>\<open>colorId\<close> is absent or falsy,
  on a calendar whose default \<^verbatim>\<open>colorId\<close> is absent or falsy, is accumulated under the
  key \<open>default\<close>: the loop body yields that key, the loop adds the event's seconds to the
  total of \<open>default\<close> by float addition, and the key stays in the totals to the end of the
  run. When \<open>default\<close> is a key of neither colour table, the report of the final totals
  has a row for that key with the colour text \<open>default (n/a)\<close>, in the CSV file and in the
  console lines.
\<close>

theorem default_key_reported:
  assumes "\<not> truthy (evt_colorId evt)" and "\<not> truthy (cal_colorId cal)"
    and "weekly_parse_event_times L evt = Inr (s, e, is_all_day)"
    and "clamp_interval s e week_start week_end = Some (cs, ce)"
    and "\<not> (is_all_day \<and> \<not> count_all_day)"
    and "\<not> dict_contains event_colors ''default''"
    and "\<not> dict_contains calendar_colors ''default''"
  shows
  "weekly_event_body L count_all_day week_start week_end (cal_colorId cal) evt
     = Inr (Some (''default'', total_seconds (ce - cs)))
   \<and> for_events (weekly_event_body L count_all_day week_start week_end (cal_colorId cal))
         (evt # rest) acc
       = for_events (weekly_event_body L count_all_day week_start week_end (cal_colorId cal))
           rest (dd_add acc ''default'' (total_seconds (ce - cs)))
   \<and> map_of (dd_add acc ''default'' (total_seconds (ce - cs))) ''default''
       = Some (float64 ((case map_of acc ''default'' of None \<Rightarrow> 0 | Some x \<Rightarrow> x)
                         + total_seconds (ce - cs)))
   \<and> color_label event_colors calendar_colors ''default'' = ''default (n/a)''
   \<and> (cal \<in> set cals \<and> evt \<in> set (cal_events cal)
        \<and> weekly_main_loop L count_all_day week_start week_end cals acc0 = Inr final \<longrightarrow>
        (\<exists>secs hours pct.
            (''default'', secs) \<in> set final
          \<and> hours = round2 F (float64 (secs / 3600))
          \<and> [''default'', ''default (n/a)'', str_float F hours]
              \<in> set (case csv_file (weekly_report F event_colors calendar_colors csv
                                      from_to final) of
                        None \<Rightarrow> [] | Some rows \<Rightarrow> rows)
          \<and> weekly_row F ''default (n/a)'' hours pct
              \<in> set (console (weekly_report F event_colors calendar_colors csv
                                from_to final))))"
proof -
  let ?body = "weekly_event_body L count_all_day week_start week_end (cal_colorId cal)"
  have key: "first_truthy (evt_colorId evt) (cal_colorId cal) ''default'' = ''default''"
    using assms(1,2) by (simp add: first_truthy_def)
  have body: "?body evt = Inr (Some (''default'', total_seconds (ce - cs)))"
    using assms(3,4,5) key by (auto simp: weekly_event_body_def Let_def)
  have step: "for_events ?body (evt # rest) acc
                = for_events ?body rest (dd_add acc ''default'' (total_seconds (ce - cs)))"
    using body by simp
  have lab: "color_label event_colors calendar_colors ''default'' = ''default (n/a)''"
    using assms(6,7) by (rule color_label_default)
  have rep: "\<exists>secs hours pct.
            (''default'', secs) \<in> set final
          \<and> hours = round2 F (float64 (secs / 3600))
          \<and> [''default'', ''default (n/a)'', str_float F hours]
              \<in> set (case csv_file (weekly_report F event_colors calendar_colors csv
                                      from_to final) of
                        None \<Rightarrow> [] | Some rows \<Rightarrow> rows)
          \<and> weekly_row F ''default (n/a)'' hours pct
              \<in> set (console (weekly_report F event_colors calendar_colors csv
                                from_to final))"
    if c: "cal \<in> set cals" and m: "evt \<in> set (cal_events cal)"
      and run: "weekly_main_loop L count_all_day week_start week_end cals acc0 = Inr final"
  proof -
    from weekly_main_loop_adds_key [OF c m body run] have "dict_contains final ''default''" .
    then obtain secs where "(''default'', secs) \<in> set final"
      by (auto dest: dict_contains_entry)
    with default_row_reported [OF lab this, of F csv from_to] show ?thesis by blast
  qed
  from body step lab rep map_of_dd_add [of acc "''default''" "total_seconds (ce - cs)"]
  show ?thesis by blast
qed

theorem default_key_reported_witness:
  "\<not> truthy (Some []) \<and> \<not> truthy (cal_colorId \<lparr>cal_colorId = None,
        cal_events = [exercise_event, all_day_event\<lparr>evt_colorId := Some []\<rparr>]\<rparr>)
   \<and> weekly_parse_event_times sample_timelib (all_day_event\<lparr>evt_colorId := Some []\<rparr>)
       = Inr (- 86400000000, 86400000000, True)
   \<and> clamp_interval (- 86400000000) 86400000000 0 sample_week_end = Some (0, 86400000000)
   \<and> \<not> dict_contains google_event_colors ''default''
   \<and> \<not> dict_contains sample_calendar_colors ''default''
   \<and> weekly_event_body sample_timelib True 0 sample_week_end None
         (all_day_event\<lparr>evt_colorId := Some []\<rparr>) = Inr (Some (''default'', 86400))
   \<and> map_of (dd_add [(''9'', 5400)] ''default'' 86400) ''default'' = Some 86400
   \<and> weekly_main_loop sample_timelib True 0 sample_week_end
         [\<lparr>cal_colorId = None,
           cal_events = [exercise_event, all_day_event\<lparr>evt_colorId := Some []\<rparr>]\<rparr>] []
       = Inr [(''9'', 5400), (''default'', 86400)]
   \<and> weekly_report sample_fmt google_event_colors sample_calendar_colors ''w.csv''
         ''From: To:'' [(''9'', 5400), (''default'', 86400)] =
       \<lparr>console = [weekly_title, ''From: To:'', replicate 60 (CHR ''-''), ''default (n/a)'',
                   ''9 (#5484ed)'', replicate 60 (CHR ''-''), ''TOTAL'',
                   CHR 0x0A # ''[INFO] Wrote CSV: w.csv''],
        csv_file = Some [[''color_id'', ''color'', ''hours''],
                         [''default'', ''default (n/a)'', ''h''],
                         [''9'', ''9 (#5484ed)'', ''h'']]\<rparr>"
proof -
  let ?evt = "all_day_event\<lparr>evt_colorId := Some []\<rparr>"
  let ?cal = "\<lparr>cal_colorId = None, cal_events = [exercise_event, ?evt]\<rparr>"
  have a: "\<not> truthy (evt_colorId ?evt)" and a': "\<not> truthy (Some [])"
    and b: "\<not> truthy (cal_colorId ?cal)"
    by (simp_all add: truthy_def)
  have p: "weekly_parse_event_times sample_timelib ?evt = Inr (- 86400000000, 86400000000, True)"
    by code_simp
  have cl: "clamp_interval (- 86400000000) 86400000000 0 sample_week_end = Some (0, 86400000000)"
    by (simp add: clamp_interval_eq_clip clip_eq sample_week_end_def)
  have f: "\<not> (True \<and> \<not> True)" by simp
  have c: "\<not> dict_contains google_event_colors ''default''"
    by (simp add: dict_contains_def google_event_colors_def)
  have d: "\<not> dict_contains sample_calendar_colors ''default''"
    by (simp add: dict_contains_def sample_calendar_colors_def)
  have ts: "total_seconds (86400000000 - 0) = 86400"
    by code_simp
  have m: "map_of (dd_add [(''9'', 5400)] ''default'' 86400) ''default'' = Some 86400"
    by code_simp
  have run: "weekly_main_loop sample_timelib True 0 sample_week_end [?cal] []
       = Inr [(''9'', 5400), (''default'', 86400)]"
    by code_simp
  have r: "weekly_report sample_fmt google_event_colors sample_calendar_colors ''w.csv''
         ''From: To:'' [(''9'', 5400), (''default'', 86400)] =
       \<lparr>console = [weekly_title, ''From: To:'', replicate 60 (CHR ''-''), ''default (n/a)'',
                   ''9 (#5484ed)'', replicate 60 (CHR ''-''), ''TOTAL'',
                   CHR 0x0A # ''[INFO] Wrote CSV: w.csv''],
        csv_file = Some [[''color_id'', ''color'', ''hours''],
                         [''default'', ''default (n/a)'', ''h''],
                         [''9'', ''9 (#5484ed)'', ''h'']]\<rparr>"
    by code_simp
  from default_key_reported [OF a b p cl f c d, of "[]" "[(''9'', 5400)]" "[?cal]" "[]"
      "[(''9'', 5400), (''default'', 86400)]" sample_fmt "''w.csv''" "''From: To:''"]
    a' b p cl c d ts m run r
  show ?thesis by simp
qed

end
